theory Spec2Isabelle
  imports Main
begin

section \<open>Python text primitives\<close>

text \<open>
  The program (\<^verbatim>\<open>fix_imports.py\<close>) works on JavaScript source text with Python's
  \<^verbatim>\<open>str\<close> methods and the \<^verbatim>\<open>re\<close> module. File text is modelled as \<^typ>\<open>string\<close>;
  the character classes below are the ASCII part of Python's classes (\<^verbatim>\<open>\s\<close> and
  \<^verbatim>\<open>str.isspace\<close>: codes 9--13, 28--32; \<^verbatim>\<open>\w\<close>: letters, digits, underscore).
  Offsets are natural numbers; \<^verbatim>\<open>str.find\<close> and \<^verbatim>\<open>str.rfind\<close> return Python
  integers, \<open>-1\<close> for "not found".
\<close>

definition is_space :: "char \<Rightarrow> bool" where
  "is_space c = (let n = (of_char c :: nat) in (9 \<le> n \<and> n \<le> 13) \<or> (28 \<le> n \<and> n \<le> 32))"

definition is_word :: "char \<Rightarrow> bool" where
  "is_word c = (let n = (of_char c :: nat) in
     (48 \<le> n \<and> n \<le> 57) \<or> (65 \<le> n \<and> n \<le> 90) \<or> n = 95 \<or> (97 \<le> n \<and> n \<le> 122))"

text \<open>\<^verbatim>\<open>s[a:b]\<close> for non-negative \<open>a\<close>, \<open>b\<close>: out-of-range bounds are clamped.\<close>

definition slice :: "string \<Rightarrow> nat \<Rightarrow> nat \<Rightarrow> string" where
  "slice s a b = take (b - a) (drop a s)"

definition lstrip :: "string \<Rightarrow> string" where
  "lstrip s = dropWhile is_space s"

definition rstrip :: "string \<Rightarrow> string" where
  "rstrip s = rev (dropWhile is_space (rev s))"

definition strip :: "string \<Rightarrow> string" where
  "strip s = rstrip (lstrip s)"

fun startswith :: "string \<Rightarrow> string \<Rightarrow> bool" where
  "startswith s [] = True"
| "startswith [] (p # ps) = False"
| "startswith (c # cs) (p # ps) = (c = p \<and> startswith cs ps)"

definition endswith :: "string \<Rightarrow> string \<Rightarrow> bool" where
  "endswith s p = startswith (rev s) (rev p)"

text \<open>\<^verbatim>\<open>sub in s\<close>: substring test.\<close>

fun contains :: "string \<Rightarrow> string \<Rightarrow> bool" where
  "contains [] sub = (sub = [])"
| "contains (c # cs) sub = (startswith (c # cs) sub \<or> contains cs sub)"

text \<open>
  \<^verbatim>\<open>s.find(c, start)\<close> for a one-character needle: the least index \<open>\<ge> start\<close> holding
  \<open>c\<close>, or \<open>-1\<close>. \<open>find_from\<close> walks the text left of which \<open>i\<close> characters lie.
\<close>

fun find_from :: "char \<Rightarrow> nat \<Rightarrow> nat \<Rightarrow> string \<Rightarrow> int" where
  "find_from c start i [] = -1"
| "find_from c start i (x # xs) =
     (if start \<le> i \<and> x = c then int i else find_from c start (Suc i) xs)"

definition find_char :: "string \<Rightarrow> char \<Rightarrow> nat \<Rightarrow> int" where
  "find_char s c start = find_from c start 0 s"

text \<open>
  \<^verbatim>\<open>s.rfind(c, 0, stop)\<close>: the greatest index \<open>< stop\<close> holding \<open>c\<close>, or \<open>-1\<close>;
  \<open>rfind_upto\<close> carries the best index seen so far.
\<close>

fun rfind_upto :: "char \<Rightarrow> nat \<Rightarrow> nat \<Rightarrow> int \<Rightarrow> string \<Rightarrow> int" where
  "rfind_upto c stop i best [] = best"
| "rfind_upto c stop i best (x # xs) =
     (if stop \<le> i then best
      else rfind_upto c stop (Suc i) (if x = c then int i else best) xs)"

definition rfind_char :: "string \<Rightarrow> char \<Rightarrow> nat \<Rightarrow> int" where
  "rfind_char s c stop = rfind_upto c stop 0 (-1) s"

text \<open>
  \<^verbatim>\<open>s.split(sep)\<close> for a non-empty separator: the pieces between the non-overlapping
  occurrences of \<open>sep\<close>, found left to right; always at least one piece.
  \<open>split_acc\<close> holds the current piece reversed.
\<close>

fun split_acc :: "string \<Rightarrow> string \<Rightarrow> string \<Rightarrow> string list" where
  "split_acc sep acc [] = [rev acc]"
| "split_acc sep acc (c # cs) =
     (if startswith (c # cs) sep \<and> sep \<noteq> []
      then rev acc # split_acc sep [] (drop (length sep) (c # cs))
      else split_acc sep (c # acc) cs)"

definition split :: "string \<Rightarrow> string \<Rightarrow> string list" where
  "split s sep = split_acc sep [] s"

text \<open>\<^verbatim>\<open>sep.join(parts)\<close>.\<close>

fun join :: "string \<Rightarrow> string list \<Rightarrow> string" where
  "join sep [] = []"
| "join sep [p] = p"
| "join sep (p # q # ps) = p @ sep @ join sep (q # ps)"

text \<open>
  \<^verbatim>\<open>s.replace(old, new)\<close> for non-empty \<open>old\<close>: every non-overlapping occurrence,
  left to right. (For empty \<open>old\<close> Python inserts \<open>new\<close> between all characters; the
  program never calls it so: \<open>old\<close> is always a non-empty regex match.)
\<close>

function replace :: "string \<Rightarrow> string \<Rightarrow> string \<Rightarrow> string" where
  "replace [] old new = []"
| "replace (c # cs) old new =
     (if old \<noteq> [] \<and> startswith (c # cs) old
      then new @ replace (drop (length old) (c # cs)) old new
      else c # replace cs old new)"
  by pat_completeness auto
termination
  by (relation "measure (\<lambda>(s, old, new). length s)") (auto simp: neq_Nil_conv)

section \<open>The regular expressions of the program\<close>

text \<open>
  Every pattern the program uses is a sequence of literal text, single characters of a
  class, greedy or lazy repetitions of one class, word boundaries, line ends, an
  alternative of literals, capturing groups, and optional groups whose body is such a
  sequence. Patterns are written as lists of items in the order of the source pattern;
  \<open>GOpen k\<close> and \<open>GClose k\<close> stand for the parentheses of capturing group \<open>k\<close>.
\<close>

datatype cls =
    Space             \<comment> \<open>\<^verbatim>\<open>\s\<close>\<close>
  | Word              \<comment> \<open>\<^verbatim>\<open>\w\<close>\<close>
  | Ch char           \<comment> \<open>one given character\<close>
  | OneOf "char list" \<comment> \<open>\<^verbatim>\<open>[...]\<close>\<close>
  | NotOf "char list" \<comment> \<open>\<^verbatim>\<open>[^...]\<close>\<close>
  | Dot               \<comment> \<open>\<^verbatim>\<open>.\<close> without DOTALL: anything but a newline\<close>

fun in_cls :: "cls \<Rightarrow> char \<Rightarrow> bool" where
  "in_cls Space c = is_space c"
| "in_cls Word c = is_word c"
| "in_cls (Ch d) c = (c = d)"
| "in_cls (OneOf ds) c = (c \<in> set ds)"
| "in_cls (NotOf ds) c = (c \<notin> set ds)"
| "in_cls Dot c = (c \<noteq> CHR 0x0A)"

datatype tok =
    Lit string          \<comment> \<open>literal text (also \<^verbatim>\<open>re.escape(name)\<close>)\<close>
  | One cls             \<comment> \<open>exactly one character of the class\<close>
  | Star cls            \<comment> \<open>\<^verbatim>\<open>c*\<close>, greedy\<close>
  | Plus cls            \<comment> \<open>\<^verbatim>\<open>c+\<close>, greedy\<close>
  | Lazy cls            \<comment> \<open>\<^verbatim>\<open>c*?\<close>\<close>
  | AltLit "string list" \<comment> \<open>\<^verbatim>\<open>(?:a|b|c)\<close> over literals, tried left to right\<close>
  | WordB               \<comment> \<open>\<^verbatim>\<open>\b\<close>\<close>
  | Eol                 \<comment> \<open>\<^verbatim>\<open>$\<close> under MULTILINE: at the end or before a newline\<close>
  | Bos                 \<comment> \<open>\<^verbatim>\<open>^\<close> without MULTILINE: at offset 0\<close>
  | Eos                 \<comment> \<open>\<^verbatim>\<open>$\<close> without MULTILINE: at the end or before a final newline\<close>
  | GOpen nat
  | GClose nat

datatype item =
    T tok
  | Opt "tok list"      \<comment> \<open>\<^verbatim>\<open>(?:...)?\<close> and \<^verbatim>\<open>x?\<close>, greedy\<close>

type_synonym pattern = "item list"

text \<open>A capture is (start, end, text); while its group is open, text holds the rest of the input.\<close>

type_synonym caps = "(nat \<times> nat \<times> nat \<times> string) list"

definition at_boundary :: "char option \<Rightarrow> string \<Rightarrow> bool" where
  "at_boundary prev rest =
     ((case prev of None \<Rightarrow> False | Some p \<Rightarrow> is_word p)
      \<noteq> (case rest of [] \<Rightarrow> False | x # xs \<Rightarrow> is_word x))"

fun wt_tok :: "tok \<Rightarrow> nat" where
  "wt_tok (Lit s) = Suc (length s)"
| "wt_tok (AltLit ss) = Suc (sum_list (map (\<lambda>s. Suc (Suc (length s))) ss))"
| "wt_tok t = 1"

fun wt_item :: "item \<Rightarrow> nat" where
  "wt_item (T t) = wt_tok t"
| "wt_item (Opt ts) = Suc (sum_list (map wt_tok ts))"

definition wt :: "pattern \<Rightarrow> nat" where
  "wt p = sum_list (map wt_item p)"

text \<open>
  \<open>rmatch p pos prev rest caps\<close> is the backtracking matcher of \<^verbatim>\<open>re\<close> anchored at
  offset \<open>pos\<close>: \<open>rest\<close> is the text from \<open>pos\<close> on, \<open>prev\<close> the character before it.
  It returns the first way to match in Python's priority order (a greedy repetition
  takes as much as it can and gives back one character at a time; an optional group is
  tried present first; alternatives left to right), as the end offset, the character
  before it, the remaining text and the captures.
\<close>

function (sequential) rmatch ::
  "pattern \<Rightarrow> nat \<Rightarrow> char option \<Rightarrow> string \<Rightarrow> caps \<Rightarrow> (nat \<times> char option \<times> string \<times> caps) option"
where
  "rmatch [] pos prev rest caps = Some (pos, prev, rest, caps)"
| "rmatch (T (Lit []) # p) pos prev rest caps = rmatch p pos prev rest caps"
| "rmatch (T (Lit (c # cs)) # p) pos prev rest caps =
     (case rest of
        [] \<Rightarrow> None
      | x # xs \<Rightarrow> if x = c then rmatch (T (Lit cs) # p) (Suc pos) (Some x) xs caps else None)"
| "rmatch (T (One k) # p) pos prev rest caps =
     (case rest of
        [] \<Rightarrow> None
      | x # xs \<Rightarrow> if in_cls k x then rmatch p (Suc pos) (Some x) xs caps else None)"
| "rmatch (T (Star k) # p) pos prev rest caps =
     (case rest of
        [] \<Rightarrow> rmatch p pos prev rest caps
      | x # xs \<Rightarrow>
          if in_cls k x
          then (case rmatch (T (Star k) # p) (Suc pos) (Some x) xs caps of
                  Some r \<Rightarrow> Some r
                | None \<Rightarrow> rmatch p pos prev rest caps)
          else rmatch p pos prev rest caps)"
| "rmatch (T (Plus k) # p) pos prev rest caps =
     (case rest of
        [] \<Rightarrow> None
      | x # xs \<Rightarrow> if in_cls k x then rmatch (T (Star k) # p) (Suc pos) (Some x) xs caps else None)"
| "rmatch (T (Lazy k) # p) pos prev rest caps =
     (case rmatch p pos prev rest caps of
        Some r \<Rightarrow> Some r
      | None \<Rightarrow>
          (case rest of
             [] \<Rightarrow> None
           | x # xs \<Rightarrow>
               if in_cls k x then rmatch (T (Lazy k) # p) (Suc pos) (Some x) xs caps else None))"
| "rmatch (T (AltLit []) # p) pos prev rest caps = None"
| "rmatch (T (AltLit (s # ss)) # p) pos prev rest caps =
     (case rmatch (T (Lit s) # p) pos prev rest caps of
        Some r \<Rightarrow> Some r
      | None \<Rightarrow> rmatch (T (AltLit ss) # p) pos prev rest caps)"
| "rmatch (T WordB # p) pos prev rest caps =
     (if at_boundary prev rest then rmatch p pos prev rest caps else None)"
| "rmatch (T Eol # p) pos prev rest caps =
     (if rest = [] \<or> hd rest = CHR 0x0A then rmatch p pos prev rest caps else None)"
| "rmatch (T Bos # p) pos prev rest caps =
     (if pos = 0 then rmatch p pos prev rest caps else None)"
| "rmatch (T Eos # p) pos prev rest caps =
     (if rest = [] \<or> rest = [CHR 0x0A] then rmatch p pos prev rest caps else None)"
| "rmatch (T (GOpen g) # p) pos prev rest caps =
     rmatch p pos prev rest ((g, pos, pos, rest) # caps)"
| "rmatch (T (GClose g) # p) pos prev rest caps =
     (case map_of caps g of
        None \<Rightarrow> rmatch p pos prev rest caps
      | Some (s, e, r) \<Rightarrow> rmatch p pos prev rest ((g, s, pos, take (pos - s) r) # caps))"
| "rmatch (Opt ts # p) pos prev rest caps =
     (case rmatch (map T ts @ p) pos prev rest caps of
        Some r \<Rightarrow> Some r
      | None \<Rightarrow> rmatch p pos prev rest caps)"
  by pat_completeness auto
termination
  by (relation "measures [\<lambda>(p, pos, prev, rest, caps). wt p,
                          \<lambda>(p, pos, prev, rest, caps). length rest]")
     (auto simp: wt_def comp_def)

declare rmatch.simps [simp del]

lemma rmatch_consumes:
  "rmatch p pos prev rest caps = Some (e, prev', rest', caps') \<Longrightarrow>
     length rest' \<le> length rest \<and> e = pos + (length rest - length rest')"
proof (induction p pos prev rest caps arbitrary: e prev' rest' caps' rule: rmatch.induct)
  case (1 pos prev rest caps)
  then show ?case by (simp add: rmatch.simps)
next
  case (2 p pos prev rest caps)
  then show ?case by (simp add: rmatch.simps(2))
next
  case (3 c cs p pos prev rest caps)
  from "3.prems" show ?case
    by (subst (asm) rmatch.simps) (auto split: list.splits if_splits dest!: "3.IH")
next
  case (4 k p pos prev rest caps)
  from "4.prems" show ?case
    by (subst (asm) rmatch.simps) (auto split: list.splits if_splits dest!: "4.IH")
next
  case (5 k p pos prev rest caps)
  from "5.prems" have eq:
    "(case rest of
        [] \<Rightarrow> rmatch p pos prev rest caps
      | x # xs \<Rightarrow>
          if in_cls k x
          then (case rmatch (T (Star k) # p) (Suc pos) (Some x) xs caps of
                  Some r \<Rightarrow> Some r
                | None \<Rightarrow> rmatch p pos prev rest caps)
          else rmatch p pos prev rest caps) = Some (e, prev', rest', caps')"
    by (subst (asm) rmatch.simps(5))
  show ?case
  proof (cases rest)
    case Nil
    with eq have "rmatch p pos prev rest caps = Some (e, prev', rest', caps')" by simp
    from "5.IH"(1) [OF Nil this] show ?thesis .
  next
    case (Cons x xs)
    show ?thesis
    proof (cases "in_cls k x")
      case False
      with eq Cons have "rmatch p pos prev rest caps = Some (e, prev', rest', caps')" by simp
      from "5.IH"(4) [OF Cons False this] show ?thesis .
    next
      case True
      show ?thesis
      proof (cases "rmatch (T (Star k) # p) (Suc pos) (Some x) xs caps")
        case None
        with eq Cons True have "rmatch p pos prev rest caps = Some (e, prev', rest', caps')"
          by simp
        from "5.IH"(3) [OF Cons True None this] show ?thesis .
      next
        case (Some r)
        with eq Cons True
        have "rmatch (T (Star k) # p) (Suc pos) (Some x) xs caps = Some (e, prev', rest', caps')"
          by simp
        from "5.IH"(2) [OF Cons True this] Cons show ?thesis by auto
      qed
    qed
  qed
next
  case (6 k p pos prev rest caps)
  from "6.prems" show ?case
    by (subst (asm) rmatch.simps) (auto split: list.splits if_splits dest!: "6.IH")
next
  case (7 k p pos prev rest caps)
  from "7.prems" have eq:
    "(case rmatch p pos prev rest caps of
        Some r \<Rightarrow> Some r
      | None \<Rightarrow>
          (case rest of
             [] \<Rightarrow> None
           | x # xs \<Rightarrow>
               if in_cls k x then rmatch (T (Lazy k) # p) (Suc pos) (Some x) xs caps else None))
     = Some (e, prev', rest', caps')"
    by (subst (asm) rmatch.simps(7))
  show ?case
  proof (cases "rmatch p pos prev rest caps")
    case (Some r)
    with eq have "rmatch p pos prev rest caps = Some (e, prev', rest', caps')" by simp
    from "7.IH"(1) [OF this] show ?thesis .
  next
    case None
    with eq obtain x xs where Cons: "rest = x # xs" and k: "in_cls k x"
      and m: "rmatch (T (Lazy k) # p) (Suc pos) (Some x) xs caps = Some (e, prev', rest', caps')"
      by (auto split: list.splits if_splits)
    from "7.IH"(2) [OF None Cons k m] Cons show ?thesis by auto
  qed
next
  case (8 p pos prev rest caps)
  then show ?case by (simp add: rmatch.simps(8))
next
  case (9 s ss p pos prev rest caps)
  from "9.prems" show ?case
    by (subst (asm) rmatch.simps) (auto split: option.splits dest!: "9.IH")
next
  case (10 p pos prev rest caps)
  from "10.prems" show ?case
    by (subst (asm) rmatch.simps) (auto split: if_splits dest!: "10.IH")
next
  case (11 p pos prev rest caps)
  from "11.prems" show ?case
    by (subst (asm) rmatch.simps) (auto split: if_splits dest!: "11.IH")
next
  case (12 p pos prev rest caps)
  from "12.prems" have "pos = 0 \<and> rmatch p pos prev rest caps = Some (e, prev', rest', caps')"
    by (subst (asm) rmatch.simps(12)) (simp split: if_splits)
  with "12.IH" show ?case by blast
next
  case (13 p pos prev rest caps)
  from "13.prems" show ?case
    by (subst (asm) rmatch.simps) (auto split: if_splits dest!: "13.IH")
next
  case (14 g p pos prev rest caps)
  from "14.prems" show ?case
    by (subst (asm) rmatch.simps) (auto dest!: "14.IH")
next
  case (15 g p pos prev rest caps)
  from "15.prems" show ?case
    by (subst (asm) rmatch.simps) (auto split: option.splits dest!: "15.IH")
next
  case (16 ts p pos prev rest caps)
  from "16.prems" show ?case
    by (subst (asm) rmatch.simps) (auto split: option.splits dest!: "16.IH")
qed

text \<open>
  A match object: \<^verbatim>\<open>m.start()\<close>, \<^verbatim>\<open>m.end()\<close> and the captures. \<open>group m k\<close> is
  \<^verbatim>\<open>m.group(k)\<close> for a group that took part in the match (every group the program reads
  is a mandatory part of its pattern).
\<close>

type_synonym rm = "nat \<times> nat \<times> caps"

definition m_start :: "rm \<Rightarrow> nat" where
  "m_start m = fst m"

definition m_end :: "rm \<Rightarrow> nat" where
  "m_end m = fst (snd m)"

definition group :: "rm \<Rightarrow> nat \<Rightarrow> string" where
  "group m k = (case map_of (snd (snd m)) k of None \<Rightarrow> [] | Some (s, e, t) \<Rightarrow> t)"

text \<open>
  \<^verbatim>\<open>re.finditer(p, text)\<close>: the matches from left to right, each search starting where
  the previous match ended. \<open>scan\<close> stands at offset \<open>pos\<close>; where no match starts it
  steps over one character. After an empty match it steps over one character as well
  (no pattern of the program that is used in a loop can match the empty text at a place
  where it can also match a non-empty one).
\<close>

function scan :: "pattern \<Rightarrow> nat \<Rightarrow> char option \<Rightarrow> string \<Rightarrow> rm list" where
  "scan p pos prev rest =
     (case rmatch p pos prev rest [] of
        None \<Rightarrow> (case rest of [] \<Rightarrow> [] | x # xs \<Rightarrow> scan p (Suc pos) (Some x) xs)
      | Some (e, prev', rest', caps) \<Rightarrow>
          (pos, e, caps) #
          (if pos < e then scan p e prev' rest'
           else (case rest of [] \<Rightarrow> [] | x # xs \<Rightarrow> scan p (Suc pos) (Some x) xs)))"
  by pat_completeness auto
termination
proof (relation "measure (\<lambda>(p, pos, prev, rest). length rest)", goal_cases)
  case (3 p pos prev rest r e r2 prev' r3 rest' caps)
  then have "rmatch p pos prev rest [] = Some (e, prev', rest', caps)" by simp
  from rmatch_consumes [OF this] 3 show ?case by simp
qed auto

declare scan.simps [simp del]

definition finditer :: "pattern \<Rightarrow> string \<Rightarrow> rm list" where
  "finditer p text = scan p 0 None text"

text \<open>\<^verbatim>\<open>re.search\<close>: the first match of \<open>finditer\<close>, if any.\<close>

fun search_from :: "pattern \<Rightarrow> nat \<Rightarrow> char option \<Rightarrow> string \<Rightarrow> rm option" where
  "search_from p pos prev [] =
     (case rmatch p pos prev [] [] of None \<Rightarrow> None | Some (e, prev', rest', caps) \<Rightarrow> Some (pos, e, caps))"
| "search_from p pos prev (x # xs) =
     (case rmatch p pos prev (x # xs) [] of
        None \<Rightarrow> search_from p (Suc pos) (Some x) xs
      | Some (e, prev', rest', caps) \<Rightarrow> Some (pos, e, caps))"

definition search :: "pattern \<Rightarrow> string \<Rightarrow> rm option" where
  "search p text = search_from p 0 None text"

text \<open>\<^verbatim>\<open>re.match\<close>: a match at offset 0 only.\<close>

definition match_start :: "pattern \<Rightarrow> string \<Rightarrow> rm option" where
  "match_start p text =
     (case rmatch p 0 None text [] of None \<Rightarrow> None | Some (e, prev', rest', caps) \<Rightarrow> Some (0, e, caps))"

text \<open>
  \<^verbatim>\<open>re.sub(p, repl, text)\<close>: the text with every match of \<open>finditer\<close> replaced. A
  replacement template is a list of literal parts and group references
  (\<^verbatim>\<open>\1\<close> is \<open>Ref 1\<close>).
\<close>

datatype rpart = Txt string | Ref nat

fun expand :: "rpart list \<Rightarrow> rm \<Rightarrow> string" where
  "expand [] m = []"
| "expand (Txt s # ps) m = s @ expand ps m"
| "expand (Ref k # ps) m = group m k @ expand ps m"

fun sub_build :: "rpart list \<Rightarrow> string \<Rightarrow> nat \<Rightarrow> rm list \<Rightarrow> string" where
  "sub_build repl text done_to [] = drop done_to text"
| "sub_build repl text done_to (m # ms) =
     slice text done_to (m_start m) @ expand repl m @ sub_build repl text (m_end m) ms"

definition sub :: "pattern \<Rightarrow> rpart list \<Rightarrow> string \<Rightarrow> string" where
  "sub p repl text = sub_build repl text 0 (finditer p text)"

text \<open>\<^verbatim>\<open>re.findall\<close> for a pattern with one group: the text of group 1 of every match.\<close>

definition findall :: "pattern \<Rightarrow> string \<Rightarrow> string list" where
  "findall p text = map (\<lambda>m. group m 1) (finditer p text)"

section \<open>Declaration scanner: \<^verbatim>\<open>find_all_exports\<close>\<close>

datatype etype = Default | Named | Class | Function | Const | Destructured

text \<open>The dictionary key of an export kind, as it is printed in change records.\<close>

fun etype_name :: "etype \<Rightarrow> string" where
  "etype_name Default = ''default''"
| "etype_name Named = ''named''"
| "etype_name Class = ''class''"
| "etype_name Function = ''function''"
| "etype_name Const = ''const''"
| "etype_name Destructured = ''destructured''"

text \<open>One scanned declaration: (name, start, end).\<close>

type_synonym decl = "string \<times> nat \<times> nat"

text \<open>
  The dictionary \<^verbatim>\<open>exports\<close>, one list per kind. \<open>items\<close> lists it in the order in
  which the source creates the keys, which is the order \<^verbatim>\<open>exports.items()\<close> iterates.
\<close>

record exports =
  ex_default :: "decl list"
  ex_named :: "decl list"
  ex_class :: "decl list"
  ex_function :: "decl list"
  ex_const :: "decl list"
  ex_destructured :: "decl list"

definition items :: "exports \<Rightarrow> (etype \<times> decl list) list" where
  "items ex =
     [(Default, ex_default ex), (Named, ex_named ex), (Class, ex_class ex),
      (Function, ex_function ex), (Const, ex_const ex), (Destructured, ex_destructured ex)]"

text \<open>\<^verbatim>\<open>export\s+default\s+(\w+)(?:\s*;)?\<close>\<close>

definition pat_export_default :: pattern where
  "pat_export_default =
     [T (Lit ''export''), T (Plus Space), T (Lit ''default''), T (Plus Space),
      T (GOpen 1), T (Plus Word), T (GClose 1), Opt [Star Space, Lit '';'']]"

text \<open>\<^verbatim>\<open>export\s+default\s+function\s*\(\<close>\<close>

definition pat_anonymous_function :: pattern where
  "pat_anonymous_function =
     [T (Lit ''export''), T (Plus Space), T (Lit ''default''), T (Plus Space),
      T (Lit ''function''), T (Star Space), T (Lit ''('')]"

text \<open>\<^verbatim>\<open>export\s+default\s+class\s+\{\<close>\<close>

definition pat_anonymous_class :: pattern where
  "pat_anonymous_class =
     [T (Lit ''export''), T (Plus Space), T (Lit ''default''), T (Plus Space),
      T (Lit ''class''), T (Plus Space), T (Lit ''{'')]"

text \<open>\<^verbatim>\<open>export\s+class\s+(\w+)\<close>\<close>

definition pat_export_class :: pattern where
  "pat_export_class =
     [T (Lit ''export''), T (Plus Space), T (Lit ''class''), T (Plus Space),
      T (GOpen 1), T (Plus Word), T (GClose 1)]"

text \<open>\<^verbatim>\<open>export\s+function\s+(\w+)\<close>\<close>

definition pat_export_function :: pattern where
  "pat_export_function =
     [T (Lit ''export''), T (Plus Space), T (Lit ''function''), T (Plus Space),
      T (GOpen 1), T (Plus Word), T (GClose 1)]"

text \<open>\<^verbatim>\<open>export\s+(?:const|let|var)\s+(\w+)\<close>\<close>

definition pat_export_const :: pattern where
  "pat_export_const =
     [T (Lit ''export''), T (Plus Space), T (AltLit [''const'', ''let'', ''var'']), T (Plus Space),
      T (GOpen 1), T (Plus Word), T (GClose 1)]"

text \<open>\<^verbatim>\<open>export\s*\{([^}]+)\}(?:\s*;)?\<close>\<close>

definition pat_export_braces :: pattern where
  "pat_export_braces =
     [T (Lit ''export''), T (Star Space), T (Lit ''{''), T (GOpen 1), T (Plus (NotOf ''}'')),
      T (GClose 1), T (Lit ''}''), Opt [Star Space, Lit '';'']]"

text \<open>\<^verbatim>\<open>class\s+(\w+)\<close>\<close>

definition pat_class :: pattern where
  "pat_class = [T (Lit ''class''), T (Plus Space), T (GOpen 1), T (Plus Word), T (GClose 1)]"

definition decl_of :: "rm \<Rightarrow> decl" where
  "decl_of m = (group m 1, m_start m, m_end m)"

definition anonymous_of :: "rm \<Rightarrow> decl" where
  "anonymous_of m = (''_anonymous_'', m_start m, m_end m)"

text \<open>The entries of one \<^verbatim>\<open>export { ... }\<close> statement: the list is split at commas and
  every piece is stripped (an empty piece, as after a trailing comma, is kept).\<close>

definition destructured_of :: "rm \<Rightarrow> decl list" where
  "destructured_of m = map (\<lambda>name. (name, m_start m, m_end m)) (map strip (split (group m 1) '',''))"

definition names_of :: "decl list \<Rightarrow> string list" where
  "names_of ds = map fst ds"

text \<open>
  The test of the last loop of \<^verbatim>\<open>find_all_exports\<close>: a \<^verbatim>\<open>class Name\<close> is recorded
  under \<^verbatim>\<open>'named'\<close> when the text before it on its line does not end in
  \<^verbatim>\<open>export\<close> or \<^verbatim>\<open>export default\<close> and the name is in none of the class,
  destructured and default lists.
\<close>

definition is_bare_class :: "string \<Rightarrow> decl list \<Rightarrow> decl list \<Rightarrow> decl list \<Rightarrow> rm \<Rightarrow> bool" where
  "is_bare_class content cls destr dflt m =
     (let class_name = group m 1;
          start_pos = m_start m;
          line_start = nat (rfind_char content CHR 0x0A start_pos + 1);
          preceding_text = strip (slice content line_start start_pos)
      in \<not> endswith preceding_text ''export'' \<and> \<not> endswith preceding_text ''export default''
         \<and> class_name \<notin> set (names_of cls)
         \<and> class_name \<notin> set (names_of destr)
         \<and> class_name \<notin> set (names_of dflt))"

definition find_all_exports :: "string \<Rightarrow> exports" where
  "find_all_exports content =
     (let dflt = map decl_of (finditer pat_export_default content)
                 @ map anonymous_of (finditer pat_anonymous_function content)
                 @ map anonymous_of (finditer pat_anonymous_class content);
          cls = map decl_of (finditer pat_export_class content);
          fns = map decl_of (finditer pat_export_function content);
          cst = map decl_of (finditer pat_export_const content);
          destr = concat (map destructured_of (finditer pat_export_braces content));
          nmd = map decl_of (filter (is_bare_class content cls destr dflt) (finditer pat_class content))
      in \<lparr>ex_default = dflt, ex_named = nmd, ex_class = cls, ex_function = fns,
          ex_const = cst, ex_destructured = destr\<rparr>)"

section \<open>Duplicate resolver: \<^verbatim>\<open>remove_duplicate_exports\<close>\<close>

text \<open>One occurrence of a name: (kind, start, end).\<close>

type_synonym position = "etype \<times> nat \<times> nat"

text \<open>
  \<^verbatim>\<open>all_exports\<close>: name to occurrences, keys in insertion order.
  \<open>add_export\<close> is the body of the collecting loop
  (\<^verbatim>\<open>if name not in all_exports: all_exports[name] = []\<close>, then \<^verbatim>\<open>append\<close>).
\<close>

fun add_export :: "(string \<times> position list) list \<Rightarrow> string \<Rightarrow> position \<Rightarrow> (string \<times> position list) list" where
  "add_export [] name pos = [(name, [pos])]"
| "add_export ((n, ps) # rest) name pos =
     (if n = name then (n, ps @ [pos]) # rest else (n, ps) # add_export rest name pos)"

definition collect_exports :: "exports \<Rightarrow> (string \<times> position list) list" where
  "collect_exports ex =
     foldl (\<lambda>all_exports (export_type, export_list).
              foldl (\<lambda>all_exports (name, start, stop). add_export all_exports name (export_type, start, stop))
                all_exports export_list)
       [] (items ex)"

definition find_duplicates :: "(string \<times> position list) list \<Rightarrow> (string \<times> position list) list" where
  "find_duplicates all_exports = filter (\<lambda>(name, positions). length positions > 1) all_exports"

text \<open>
  \<^verbatim>\<open>positions.sort(key=lambda x: x[1], reverse=True)\<close>: descending by start offset.
  Python's sort is stable also under \<^verbatim>\<open>reverse=True\<close> (entries with equal keys keep
  their order); \<open>sort_key\<close> is stable, so the reversals around it give exactly that.
\<close>

definition sort_positions :: "position list \<Rightarrow> position list" where
  "sort_positions positions = rev (sort_key (\<lambda>x. fst (snd x)) (rev positions))"

text \<open>\<^verbatim>\<open>xs.index(x)\<close> for an \<open>x\<close> that occurs in \<open>xs\<close>: the first index holding it.\<close>

fun index_of :: "'a list \<Rightarrow> 'a \<Rightarrow> nat" where
  "index_of [] x = 0"
| "index_of (y # ys) x = (if y = x then 0 else Suc (index_of ys x))"

definition keep_index :: "etype list \<Rightarrow> nat" where
  "keep_index export_types =
     (if Class \<in> set export_types then index_of export_types Class
      else if Function \<in> set export_types then index_of export_types Function
      else if Const \<in> set export_types then index_of export_types Const
      else if Destructured \<in> set export_types then index_of export_types Destructured
      else 0)"

text \<open>\<^verbatim>\<open>export\s*\{[^}]*\b\<close> + \<^verbatim>\<open>re.escape(name)\<close> + \<^verbatim>\<open>\b[^}]*\}(?:\s*;)?\<close>\<close>

definition pat_statement_with :: "string \<Rightarrow> pattern" where
  "pat_statement_with name =
     [T (Lit ''export''), T (Star Space), T (Lit ''{''), T (Star (NotOf ''}'')), T WordB,
      T (Lit name), T WordB, T (Star (NotOf ''}'')), T (Lit ''}''), Opt [Star Space, Lit '';'']]"

text \<open>\<^verbatim>\<open>\{([^}]+)\}\<close>\<close>

definition pat_braces :: pattern where
  "pat_braces = [T (Lit ''{''), T (GOpen 1), T (Plus (NotOf ''}'')), T (GClose 1), T (Lit ''}'')]"

text \<open>\<^verbatim>\<open>\b(\w+)\b\<close>\<close>

definition pat_word :: pattern where
  "pat_word = [T WordB, T (GOpen 1), T (Plus Word), T (GClose 1), T WordB]"

text \<open>\<^verbatim>\<open>,?\s*\b\<close> + \<^verbatim>\<open>re.escape(name)\<close> + \<^verbatim>\<open>\b\s*,?\<close>\<close>

definition pat_entry :: "string \<Rightarrow> pattern" where
  "pat_entry name =
     [Opt [Lit '',''], T (Star Space), T WordB, T (Lit name), T WordB, T (Star Space), Opt [Lit '','']]"

text \<open>\<^verbatim>\<open>,\s*,\<close>, \<^verbatim>\<open>\{\s*,\<close> and \<^verbatim>\<open>,\s*\}\<close>\<close>

definition pat_comma_comma :: pattern where
  "pat_comma_comma = [T (Lit '',''), T (Star Space), T (Lit '','')]"

definition pat_brace_comma :: pattern where
  "pat_brace_comma = [T (Lit ''{''), T (Star Space), T (Lit '','')]"

definition pat_comma_brace :: pattern where
  "pat_comma_brace = [T (Lit '',''), T (Star Space), T (Lit ''}'')]"

text \<open>\<^verbatim>\<open>;;+\<close> and \<^verbatim>\<open>\n\s*\n\s*\n\<close>\<close>

definition pat_semicolons :: pattern where
  "pat_semicolons = [T (Lit '';''), T (Plus (Ch CHR '';''))]"

definition pat_blank_lines :: pattern where
  "pat_blank_lines =
     [T (Lit [CHR 0x0A]), T (Star Space), T (Lit [CHR 0x0A]), T (Star Space), T (Lit [CHR 0x0A])]"

text \<open>
  The body of the removal loop for one occurrence that is not the kept one. The state is
  the text being edited and the change list; the offsets \<open>start\<close> and \<open>stop\<close> are those
  of the scan of the original text.

  In the destructured branch the source reads \<^verbatim>\<open>re.search(r'\{([^}]+)\}', ...).group(1)\<close>
  on the statement just matched; that statement has a non-empty brace list whenever the
  outer pattern matched, so the inner search cannot fail, and the model gives the branch
  "no names" there.
\<close>

definition remove_destructured :: "string \<Rightarrow> nat \<Rightarrow> nat \<Rightarrow> string \<times> string list \<Rightarrow> string \<times> string list" where
  "remove_destructured name start stop st =
     (let content = fst st; changes = snd st;
          window_start = start - 50
      in case search (pat_statement_with name) (slice content window_start (stop + 50)) of
           None \<Rightarrow> (content, changes)
         | Some m \<Rightarrow>
             (let actual_start = window_start + m_start m;
                  actual_end = window_start + m_end m;
                  export_content = slice content actual_start actual_end;
                  names_in_export =
                    (case search pat_braces export_content of
                       None \<Rightarrow> []
                     | Some b \<Rightarrow> findall pat_word (group b 1))
              in if length names_in_export = 1
                 then (take actual_start content @ drop actual_end content,
                       changes @ [''Removed duplicate export { '' @ name @ '' }''])
                 else
                   (let new_export = sub (pat_entry name) [] export_content;
                        new_export = sub pat_comma_comma [Txt '',''] new_export;
                        new_export = sub pat_brace_comma [Txt ''{''] new_export;
                        new_export = sub pat_comma_brace [Txt ''}''] new_export
                    in (take actual_start content @ new_export @ drop actual_end content,
                        changes @ [''Removed '' @ name @ '' from export statement'']))))"

definition remove_line :: "string \<Rightarrow> etype \<Rightarrow> nat \<Rightarrow> nat \<Rightarrow> string \<times> string list \<Rightarrow> string \<times> string list" where
  "remove_line name export_type start stop st =
     (let content = fst st; changes = snd st;
          line_start = nat (rfind_char content CHR 0x0A start + 1);
          found = find_char content CHR 0x0A stop;
          line_end = (if found = -1 then length content else nat found);
          line = slice content line_start line_end
      in if startswith (strip line) ''export''
         then (take line_start content @ drop (line_end + 1) content,
               changes @ [''Removed duplicate '' @ etype_name export_type @ '' export of '' @ name])
         else (content, changes))"

definition remove_export :: "string \<Rightarrow> position \<Rightarrow> string \<times> string list \<Rightarrow> string \<times> string list" where
  "remove_export name pos st =
     (case pos of (export_type, start, stop) \<Rightarrow>
        if export_type = Destructured then remove_destructured name start stop st
        else remove_line name export_type start stop st)"

text \<open>\<^verbatim>\<open>for i, (export_type, start, end) in enumerate(positions)\<close>, skipping \<open>keep_index\<close>.\<close>

fun remove_others :: "string \<Rightarrow> nat \<Rightarrow> nat \<Rightarrow> position list \<Rightarrow> string \<times> string list \<Rightarrow> string \<times> string list" where
  "remove_others name keep i [] st = st"
| "remove_others name keep i (pos # positions) st =
     remove_others name keep (Suc i) positions (if i = keep then st else remove_export name pos st)"

definition resolve_name :: "string \<times> string list \<Rightarrow> string \<times> position list \<Rightarrow> string \<times> string list" where
  "resolve_name st dup =
     (case dup of (name, positions) \<Rightarrow>
        (let positions = sort_positions positions;
             export_types = map fst positions
         in remove_others name (keep_index export_types) 0 positions st))"

definition remove_duplicate_exports :: "string \<Rightarrow> string \<times> string list" where
  "remove_duplicate_exports content =
     (let exports = find_all_exports content;
          all_exports = collect_exports exports;
          duplicates = find_duplicates all_exports
      in if duplicates = [] then (content, [])
         else
           (let st = foldl resolve_name (content, []) duplicates;
                content = sub pat_semicolons [Txt '';''] (fst st);
                content = sub pat_blank_lines [Txt [CHR 0x0A, CHR 0x0A]] content
            in (content, snd st)))"

section \<open>Import scanner: \<^verbatim>\<open>find_all_imports\<close>\<close>

text \<open>One scanned import: (name, module path as written, start, end).\<close>

type_synonym import_rec = "string \<times> string \<times> nat \<times> nat"

record import_lists =
  im_default :: "import_rec list"
  im_named :: "import_rec list"

text \<open>The two quote characters, \<^verbatim>\<open>['"]\<close>.\<close>

definition quotes :: "char list" where
  "quotes = [CHR 0x27, CHR 0x22]"

text \<open>\<^verbatim>\<open>import\s+(\w+)\s+from\s+['"]([^'"]+)['"]\<close>\<close>

definition pat_import_default :: pattern where
  "pat_import_default =
     [T (Lit ''import''), T (Plus Space), T (GOpen 1), T (Plus Word), T (GClose 1), T (Plus Space),
      T (Lit ''from''), T (Plus Space), T (One (OneOf quotes)),
      T (GOpen 2), T (Plus (NotOf quotes)), T (GClose 2), T (One (OneOf quotes))]"

text \<open>\<^verbatim>\<open>import\s*\{([^}]+)\}\s+from\s+['"]([^'"]+)['"]\<close>\<close>

definition pat_import_named :: pattern where
  "pat_import_named =
     [T (Lit ''import''), T (Star Space), T (Lit ''{''), T (GOpen 1), T (Plus (NotOf ''}'')),
      T (GClose 1), T (Lit ''}''), T (Plus Space), T (Lit ''from''), T (Plus Space),
      T (One (OneOf quotes)), T (GOpen 2), T (Plus (NotOf quotes)), T (GClose 2),
      T (One (OneOf quotes))]"

text \<open>\<^verbatim>\<open>//.*?$\<close> under MULTILINE\<close>

definition pat_line_comment :: pattern where
  "pat_line_comment = [T (Lit ''//''), T (Lazy Dot), T Eol]"

text \<open>
  \<^verbatim>\<open>names = [name.strip() for name in import_list.split(',') if name.strip()]\<close>,
  after the comments have been cut out of the list.
\<close>

definition import_names :: "string \<Rightarrow> string list" where
  "import_names import_list =
     filter (\<lambda>name. name \<noteq> []) (map strip (split (sub pat_line_comment [] import_list) '',''))"

text \<open>
  \<^verbatim>\<open>name_parts = name.split(' as '); actual_name = name_parts[0].strip()\<close>: the part
  before the first \<^verbatim>\<open>' as '\<close> (\<^verbatim>\<open>split\<close> never returns an empty list).
\<close>

definition actual_name :: "string \<Rightarrow> string" where
  "actual_name name = strip (hd (split name '' as ''))"

definition default_import_of :: "rm \<Rightarrow> import_rec" where
  "default_import_of m = (group m 1, group m 2, m_start m, m_end m)"

definition named_imports_of :: "rm \<Rightarrow> import_rec list" where
  "named_imports_of m =
     map (\<lambda>name. (actual_name name, group m 2, m_start m, m_end m)) (import_names (group m 1))"

definition find_all_imports :: "string \<Rightarrow> import_lists" where
  "find_all_imports content =
     \<lparr>im_default = map default_import_of (finditer pat_import_default content),
      im_named = concat (map named_imports_of (finditer pat_import_named content))\<rparr>"

section \<open>Paths\<close>

text \<open>
  \<^verbatim>\<open>Path(p).name\<close> and \<^verbatim>\<open>Path(p).stem\<close> of \<^verbatim>\<open>pathlib\<close>, and
  \<^verbatim>\<open>os.path.basename\<close>, \<^verbatim>\<open>splitext\<close>, \<^verbatim>\<open>dirname\<close>, \<^verbatim>\<open>join\<close> and
  \<^verbatim>\<open>normpath\<close>, all in their POSIX flavour.
\<close>

definition path_name :: "string \<Rightarrow> string" where
  "path_name p =
     (let comps = filter (\<lambda>c. c \<noteq> [] \<and> c \<noteq> ''.'') (split p ''/'')
      in if comps = [] then [] else last comps)"

definition path_stem :: "string \<Rightarrow> string" where
  "path_stem p =
     (let name = path_name p; i = rfind_char name CHR ''.'' (length name)
      in if 0 < i \<and> i < int (length name) - 1 then take (nat i) name else name)"

definition basename :: "string \<Rightarrow> string" where
  "basename p = drop (nat (rfind_char p CHR ''/'' (length p) + 1)) p"

text \<open>The first component of \<^verbatim>\<open>os.path.splitext\<close>, for a name without a slash.\<close>

definition splitext_root :: "string \<Rightarrow> string" where
  "splitext_root name =
     (let dot_index = rfind_char name CHR ''.'' (length name)
      in if 0 \<le> dot_index \<and> (\<exists>c \<in> set (take (nat dot_index) name). c \<noteq> CHR ''.'')
         then take (nat dot_index) name else name)"

definition dirname :: "string \<Rightarrow> string" where
  "dirname p =
     (let head = take (nat (rfind_char p CHR ''/'' (length p) + 1)) p
      in if head \<noteq> [] \<and> head \<noteq> replicate (length head) CHR ''/''
         then rev (dropWhile (\<lambda>c. c = CHR ''/'') (rev head)) else head)"

text \<open>\<^verbatim>\<open>os.path.join(a, b)\<close>.\<close>

definition path_join :: "string \<Rightarrow> string \<Rightarrow> string" where
  "path_join a b =
     (if startswith b ''/'' then b
      else if a = [] \<or> endswith a ''/'' then a @ b
      else a @ ''/'' @ b)"

text \<open>The component loop of \<^verbatim>\<open>normpath\<close>; \<open>new_comps\<close> is kept reversed.\<close>

fun norm_comps :: "bool \<Rightarrow> string list \<Rightarrow> string list \<Rightarrow> string list" where
  "norm_comps initial_slashes new_comps [] = rev new_comps"
| "norm_comps initial_slashes new_comps (part # parts) =
     (if part = [] \<or> part = ''.'' then norm_comps initial_slashes new_comps parts
      else if part \<noteq> ''..'' \<or> (\<not> initial_slashes \<and> new_comps = [])
              \<or> (new_comps \<noteq> [] \<and> hd new_comps = ''..'')
      then norm_comps initial_slashes (part # new_comps) parts
      else if new_comps \<noteq> [] then norm_comps initial_slashes (tl new_comps) parts
      else norm_comps initial_slashes new_comps parts)"

definition normpath :: "string \<Rightarrow> string" where
  "normpath path =
     (if path = [] then ''.''
      else
        (let slashes = (if startswith path ''/''
                        then (if startswith path ''//'' \<and> \<not> startswith path ''///'' then 2 else 1)
                        else (0::nat));
             body = join ''/'' (norm_comps (slashes \<noteq> 0) [] (split path ''/''));
             path = replicate slashes CHR ''/'' @ body
         in if path = [] then ''.'' else path))"

section \<open>Cross-file pass: the usage tally and the style decision\<close>

text \<open>
  \<^verbatim>\<open>resolve_import_path\<close>: a relative specifier is joined with the importer's
  directory, normalised and given the extension \<^verbatim>\<open>.js\<close>; any other specifier is
  returned as it is.
\<close>

definition resolve_import_path :: "string \<Rightarrow> string \<Rightarrow> string" where
  "resolve_import_path source_file import_path =
     (if startswith import_path ''./'' \<or> startswith import_path ''../''
      then
        (let source_dir = dirname source_file;
             absolute_path = normpath (path_join source_dir import_path)
         in if \<not> endswith absolute_path ''.js'' then absolute_path @ ''.js'' else absolute_path)
      else import_path)"

text \<open>
  The project's files are a store from path to text; a path with no text stands for a
  file that cannot be read (the \<^verbatim>\<open>open\<close> raises and the \<^verbatim>\<open>except\<close> branch skips the
  file).
\<close>

type_synonym store = "string \<Rightarrow> string option"

text \<open>\<^verbatim>\<open>import_styles\<close>: module path to (named count, default count), keys in insertion order.\<close>

type_synonym tally = "(string \<times> nat \<times> nat) list"

datatype import_kind = DefaultImport | NamedImport

text \<open>
  The body of the counting loop: create the entry with both counts 0 if the path is new,
  then add one to the count of the import's kind.
\<close>

fun count_import :: "tally \<Rightarrow> string \<Rightarrow> import_kind \<Rightarrow> tally" where
  "count_import [] module_path kind =
     [(module_path, (case kind of NamedImport \<Rightarrow> (1, 0) | DefaultImport \<Rightarrow> (0, 1)))]"
| "count_import ((p, n, d) # rest) module_path kind =
     (if p = module_path
      then (p, (case kind of NamedImport \<Rightarrow> (Suc n, d) | DefaultImport \<Rightarrow> (n, Suc d))) # rest
      else (p, n, d) # count_import rest module_path kind)"

definition count_file :: "tally \<Rightarrow> string \<Rightarrow> string \<Rightarrow> tally" where
  "count_file import_styles js_file content =
     (let imports = find_all_imports content;
          import_styles =
            foldl (\<lambda>t item. count_import t (resolve_import_path js_file (fst (snd item))) DefaultImport)
              import_styles (im_default imports)
      in foldl (\<lambda>t item. count_import t (resolve_import_path js_file (fst (snd item))) NamedImport)
           import_styles (im_named imports))"

definition import_styles :: "store \<Rightarrow> string list \<Rightarrow> tally" where
  "import_styles fs js_files =
     foldl (\<lambda>t js_file. case fs js_file of None \<Rightarrow> t | Some content \<Rightarrow> count_file t js_file content)
       [] js_files"

datatype style = NamedStyle | DefaultStyle

text \<open>The decision of the second loop of \<^verbatim>\<open>analyze_import_export_relationships\<close>.\<close>

definition decide_style :: "nat \<times> nat \<Rightarrow> style" where
  "decide_style counts =
     (case counts of (named, dflt) \<Rightarrow>
        if named > dflt then NamedStyle
        else if dflt > 0 then DefaultStyle
        else NamedStyle)"

type_synonym style_map = "(string \<times> style) list"

definition analyze_import_export_relationships :: "store \<Rightarrow> string list \<Rightarrow> style_map" where
  "analyze_import_export_relationships fs js_files =
     map (\<lambda>(module_path, counts). (module_path, decide_style counts)) (import_styles fs js_files)"

section \<open>Style classifier: \<^verbatim>\<open>modernize_exports\<close>\<close>

text \<open>
  The patterns built around a symbol name. Where the source escapes the name
  (\<^verbatim>\<open>re.escape\<close>) it is literal text by construction; where it interpolates the name
  unescaped (in \<^verbatim>\<open>fix_imports\<close>) the name is a policy symbol, an identifier, and is
  literal text as well.
\<close>

text \<open>\<^verbatim>\<open>class\s+\<close>name\<^verbatim>\<open>\b\<close>\<close>

definition pat_class_decl :: "string \<Rightarrow> pattern" where
  "pat_class_decl name = [T (Lit ''class''), T (Plus Space), T (Lit name), T WordB]"

text \<open>\<^verbatim>\<open>export\s+class\s+\<close>name\<^verbatim>\<open>\b\<close>\<close>

definition pat_export_class_decl :: "string \<Rightarrow> pattern" where
  "pat_export_class_decl name =
     [T (Lit ''export''), T (Plus Space), T (Lit ''class''), T (Plus Space), T (Lit name), T WordB]"

text \<open>\<^verbatim>\<open>export\s+default\s+\<close>name\<^verbatim>\<open>(?:\s*;)?\<close>\<close>

definition pat_export_default_of :: "string \<Rightarrow> pattern" where
  "pat_export_default_of name =
     [T (Lit ''export''), T (Plus Space), T (Lit ''default''), T (Plus Space), T (Lit name),
      Opt [Star Space, Lit '';'']]"

text \<open>
  \<^verbatim>\<open>_remove_named_export\<close>: the loop runs over the matches of the text it was given,
  editing the text as it goes with the offsets of those matches.
\<close>

definition remove_named_step :: "string \<Rightarrow> string \<times> string list \<Rightarrow> rm \<Rightarrow> string \<times> string list" where
  "remove_named_step name st m =
     (let content = fst st; changes = snd st;
          export_start = m_start m; export_end = m_end m;
          names = map strip (split (group m 1) '','')
      in if name \<in> set names
         then
           (if length names = 1
            then (take export_start content @ drop export_end content,
                  changes @ [''Removed named export for '' @ name])
            else
              (let new_export_list = join '','' (filter (\<lambda>n. n \<noteq> name) names);
                   new_export = ''export { '' @ new_export_list @ '' };''
               in (take export_start content @ new_export @ drop export_end content,
                   changes @ [''Removed '' @ name @ '' from named exports''])))
         else (content, changes))"

definition remove_named_export :: "string \<Rightarrow> string \<Rightarrow> string \<times> string list" where
  "remove_named_export content name =
     foldl (remove_named_step name) (content, []) (finditer pat_export_braces content)"

text \<open>The body of the loop over \<^verbatim>\<open>exports['default']\<close>.\<close>

definition default_to_named ::
  "exports \<Rightarrow> string \<Rightarrow> string set \<Rightarrow> string \<times> string list \<Rightarrow> decl \<Rightarrow> string \<times> string list" where
  "default_to_named exports stem should_be_named st d =
     (let content = fst st; changes = snd st; name = fst d
      in if name \<in> should_be_named \<or> name = stem
         then
           (let has_named = name \<in> set (names_of (ex_destructured exports));
                has_class = name \<in> set (names_of (ex_class exports));
                has_function = name \<in> set (names_of (ex_function exports));
                has_const = name \<in> set (names_of (ex_const exports))
            in if \<not> (has_named \<or> has_class \<or> has_function \<or> has_const)
               then (sub (pat_export_default_of name) [Txt (''export { '' @ name @ '' };'')] content,
                     changes @ [''Default to Named export: '' @ name])
               else (content, changes))
         else (content, changes))"

text \<open>The body of the loop over \<^verbatim>\<open>exports['class']\<close>.\<close>

definition class_to_named ::
  "exports \<Rightarrow> string set \<Rightarrow> string \<times> string list \<Rightarrow> decl \<Rightarrow> string \<times> string list" where
  "class_to_named exports should_be_named st d =
     (let content = fst st; changes = snd st; name = fst d
      in if name \<in> should_be_named
         then
           (let has_destructured = name \<in> set (names_of (ex_destructured exports))
            in if \<not> has_destructured
               then
                 (let content = sub (pat_export_class_decl name) [Txt (''class '' @ name)] content;
                      content = rstrip content @ [CHR 0x0A, CHR 0x0A] @ ''export { '' @ name @ '' };''
                                @ [CHR 0x0A]
                  in (content, changes @ [''Class export to Named: '' @ name]))
               else (content, changes))
         else (content, changes))"

definition modernize_exports ::
  "string \<Rightarrow> string \<Rightarrow> string set \<Rightarrow> string set \<Rightarrow> string \<times> string list" where
  "modernize_exports content filename keep_as_default should_be_named =
     (let exports = find_all_exports content;
          stem = path_stem filename
      in if stem \<in> keep_as_default
         then
           (let class_exports = filter (\<lambda>name. name = stem) (names_of (ex_class exports))
            in if class_exports \<noteq> [] \<and> stem \<notin> set (names_of (ex_default exports))
               then
                 (if stem \<in> set (names_of (ex_destructured exports))
                  then
                    (let r = remove_named_export content stem;
                         content = sub (pat_class_decl stem) [Txt (''export default class '' @ stem)] (fst r)
                     in (content, snd r @ [''Added default export for '' @ stem]))
                  else if stem \<in> set (names_of (ex_class exports))
                  then (sub (pat_export_class_decl stem) [Txt (''export default class '' @ stem)] content,
                        [''Class to Default export: '' @ stem])
                  else (content, []))
               else (content, []))
         else
           (let st = foldl (default_to_named exports stem should_be_named) (content, [])
                       (ex_default exports)
            in foldl (class_to_named exports should_be_named) st (ex_class exports)))"

section \<open>Import rewriting: \<^verbatim>\<open>fix_imports\<close>\<close>

text \<open>\<^verbatim>\<open>import\s+\<close>name\<^verbatim>\<open>\s+from\<close> and \<^verbatim>\<open>import\s*{\s*\<close>name\<^verbatim>\<open>\s*}\s*from\<close>\<close>

definition pat_wrong_default :: "string \<Rightarrow> pattern" where
  "pat_wrong_default module_name =
     [T (Lit ''import''), T (Plus Space), T (Lit module_name), T (Plus Space), T (Lit ''from'')]"

definition pat_wrong_named :: "string \<Rightarrow> pattern" where
  "pat_wrong_named module_name =
     [T (Lit ''import''), T (Star Space), T (Lit ''{''), T (Star Space), T (Lit module_name),
      T (Star Space), T (Lit ''}''), T (Star Space), T (Lit ''from'')]"

text \<open>
  \<^verbatim>\<open>import\s+\w+\s+from\s+['"]([^'"]+)['"]\<close> and
  \<^verbatim>\<open>import\s*\{[^}]+\}\s+from\s+['"]([^'"]+)['"]\<close>: the two entries of
  \<^verbatim>\<open>import_patterns\<close>; group 1 is the path.
\<close>

definition pat_default_path :: pattern where
  "pat_default_path =
     [T (Lit ''import''), T (Plus Space), T (Plus Word), T (Plus Space), T (Lit ''from''),
      T (Plus Space), T (One (OneOf quotes)), T (GOpen 1), T (Plus (NotOf quotes)), T (GClose 1),
      T (One (OneOf quotes))]"

definition pat_named_path :: pattern where
  "pat_named_path =
     [T (Lit ''import''), T (Star Space), T (Lit ''{''), T (Plus (NotOf ''}'')), T (Lit ''}''),
      T (Plus Space), T (Lit ''from''), T (Plus Space), T (One (OneOf quotes)), T (GOpen 1),
      T (Plus (NotOf quotes)), T (GClose 1), T (One (OneOf quotes))]"

text \<open>
  \<^verbatim>\<open>import\s*{\s*\<close>name\<^verbatim>\<open>\s*}\s+from\s+['"](\<close>path\<^verbatim>\<open>)['"]\<close> and
  \<^verbatim>\<open>import\s+(\w+)\s+from\s+['"](\<close>path\<^verbatim>\<open>)['"]\<close>, the path escaped.
\<close>

definition pat_named_from :: "string \<Rightarrow> string \<Rightarrow> pattern" where
  "pat_named_from module_name path =
     [T (Lit ''import''), T (Star Space), T (Lit ''{''), T (Star Space), T (Lit module_name),
      T (Star Space), T (Lit ''}''), T (Plus Space), T (Lit ''from''), T (Plus Space),
      T (One (OneOf quotes)), T (GOpen 1), T (Lit path), T (GClose 1), T (One (OneOf quotes))]"

definition pat_default_from :: "string \<Rightarrow> pattern" where
  "pat_default_from path =
     [T (Lit ''import''), T (Plus Space), T (GOpen 1), T (Plus Word), T (GClose 1), T (Plus Space),
      T (Lit ''from''), T (Plus Space), T (One (OneOf quotes)), T (GOpen 2), T (Lit path),
      T (GClose 2), T (One (OneOf quotes))]"

text \<open>The two loops over the policy dictionaries (name to the import head that is right for it).\<close>

definition modernize_import :: "string \<times> string list \<Rightarrow> string \<times> string \<Rightarrow> string \<times> string list" where
  "modernize_import st entry =
     (let content = fst st; changes = snd st;
          module_name = fst entry; correct_import = snd entry;
          wrong_pattern = pat_wrong_default module_name
      in if search wrong_pattern content \<noteq> None
         then (sub wrong_pattern [Txt correct_import] content,
               changes @ [''Import modernized: '' @ module_name])
         else (content, changes))"

definition base_class_import :: "string \<times> string list \<Rightarrow> string \<times> string \<Rightarrow> string \<times> string list" where
  "base_class_import st entry =
     (let content = fst st; changes = snd st;
          module_name = fst entry; correct_import = snd entry;
          wrong_pattern = pat_wrong_named module_name
      in if search wrong_pattern content \<noteq> None
         then (sub wrong_pattern [Txt correct_import] content,
               changes @ [''Base class import fixed: '' @ module_name])
         else (content, changes))"

text \<open>\<^verbatim>\<open>imported_modules\<close>: path to the set of import kinds seen, keys in insertion order.\<close>

fun add_kind :: "(string \<times> import_kind list) list \<Rightarrow> string \<Rightarrow> import_kind \<Rightarrow> (string \<times> import_kind list) list" where
  "add_kind [] path kind = [(path, [kind])]"
| "add_kind ((p, ks) # rest) path kind =
     (if p = path then (p, (if kind \<in> set ks then ks else ks @ [kind])) # rest
      else (p, ks) # add_kind rest path kind)"

definition imported_modules_of :: "string \<Rightarrow> (string \<times> import_kind list) list" where
  "imported_modules_of content =
     (let mods = foldl (\<lambda>mods m. add_kind mods (group m 1) DefaultImport) []
                   (finditer pat_default_path content)
      in foldl (\<lambda>mods m. add_kind mods (group m 1) NamedImport) mods
           (finditer pat_named_path content))"

text \<open>
  The inner loop of the last branch: every match of the text as it was when the loop
  started is overwritten, at its offsets, by a replacement that is not expanded as a
  template, so the path becomes a backslash and the digit 2.
\<close>

definition default_to_named_import :: "string \<Rightarrow> string \<times> string list \<Rightarrow> rm \<Rightarrow> string \<times> string list" where
  "default_to_named_import module_name st m =
     (let content = fst st; changes = snd st;
          import_name = group m 1;
          replacement = ''import { '' @ module_name @ '' } from '' @ [CHR 0x27, CHR 0x5C, CHR ''2'', CHR 0x27]
      in (take (m_start m) content @ replacement @ drop (m_end m) content,
          changes @ [''Fixed default import to named: '' @ import_name @ '' -> '' @ module_name]))"

definition fix_module ::
  "(string \<times> string) list \<Rightarrow> (string \<times> string) list \<Rightarrow> string \<times> string list
     \<Rightarrow> string \<times> import_kind list \<Rightarrow> string \<times> string list" where
  "fix_module modern_imports default_imports st entry =
     (let content = fst st; changes = snd st;
          path = fst entry; import_types = snd entry;
          module_name = path_stem path
      in if module_name \<in> fst ` set default_imports
         then
           (if NamedImport \<in> set import_types \<and> DefaultImport \<notin> set import_types
            then (sub (pat_named_from module_name path)
                    [Txt (''import '' @ module_name @ '' from '' @ [CHR 0x27]), Ref 1, Txt [CHR 0x27]]
                    content,
                  changes @ [''Fixed named import to default: '' @ module_name])
            else (content, changes))
         else if module_name \<in> fst ` set modern_imports
         then
           (if DefaultImport \<in> set import_types \<and> NamedImport \<notin> set import_types
            then foldl (default_to_named_import module_name) (content, changes)
                   (finditer (pat_default_from path) content)
            else (content, changes))
         else (content, changes))"

definition fix_imports ::
  "string \<Rightarrow> (string \<times> string) list \<Rightarrow> (string \<times> string) list \<Rightarrow> string \<Rightarrow> string \<times> string list" where
  "fix_imports content modern_imports default_imports filename =
     (let st = foldl modernize_import (content, []) modern_imports;
          st = foldl base_class_import st default_imports;
          imported_modules = imported_modules_of (fst st)
      in foldl (fix_module modern_imports default_imports) st imported_modules)"

section \<open>The UIComponent pass: \<^verbatim>\<open>check_uicomponent_imports\<close>\<close>

text \<open>
  \<^verbatim>\<open>repr\<close> of a string without quote characters (it is applied to a path matched by
  \<^verbatim>\<open>[^'"]+\<close>): single quotes around the text, with backslash, tab, newline, carriage
  return and the other control characters escaped.
\<close>

definition hex_digit :: "nat \<Rightarrow> char" where
  "hex_digit n = ''0123456789abcdef'' ! n"

definition repr_char :: "char \<Rightarrow> string" where
  "repr_char c =
     (let n = (of_char c :: nat)
      in if c = CHR 0x5C then [CHR 0x5C, CHR 0x5C]
         else if c = CHR 0x09 then [CHR 0x5C, CHR ''t'']
         else if c = CHR 0x0A then [CHR 0x5C, CHR ''n'']
         else if c = CHR 0x0D then [CHR 0x5C, CHR ''r'']
         else if n < 32 \<or> n = 127 then [CHR 0x5C, CHR ''x'', hex_digit (n div 16), hex_digit (n mod 16)]
         else [c])"

definition py_repr :: "string \<Rightarrow> string" where
  "py_repr s = [CHR 0x27] @ concat (map repr_char s) @ [CHR 0x27]"

text \<open>\<^verbatim>\<open>import\s+{?\s*UIComponent(?:\s+as\s+\w+)?\s*}?\s+from\s+['"]([^'"]+)['"]\<close>\<close>

definition pat_ui_import :: pattern where
  "pat_ui_import =
     [T (Lit ''import''), T (Plus Space), Opt [Lit ''{''], T (Star Space), T (Lit ''UIComponent''),
      Opt [Plus Space, Lit ''as'', Plus Space, Plus Word], T (Star Space), Opt [Lit ''}''],
      T (Plus Space), T (Lit ''from''), T (Plus Space), T (One (OneOf quotes)), T (GOpen 1),
      T (Plus (NotOf quotes)), T (GClose 1), T (One (OneOf quotes))]"

text \<open>\<^verbatim>\<open>UIComponent\s+as\s+(\w+)\<close>\<close>

definition pat_ui_alias :: pattern where
  "pat_ui_alias =
     [T (Lit ''UIComponent''), T (Plus Space), T (Lit ''as''), T (Plus Space), T (GOpen 1),
      T (Plus Word), T (GClose 1)]"

text \<open>\<^verbatim>\<open>import\s+{([^}]+)}\s+from\s+['"]([^'"]*UIComponent(?:\.js)?)['"]\<close>\<close>

definition pat_ui_path_import :: pattern where
  "pat_ui_path_import =
     [T (Lit ''import''), T (Plus Space), T (Lit ''{''), T (GOpen 1), T (Plus (NotOf ''}'')),
      T (GClose 1), T (Lit ''}''), T (Plus Space), T (Lit ''from''), T (Plus Space),
      T (One (OneOf quotes)), T (GOpen 2), T (Star (NotOf quotes)), T (Lit ''UIComponent''),
      Opt [Lit ''.js''], T (GClose 2), T (One (OneOf quotes))]"

text \<open>\<^verbatim>\<open>^\s*UIComponent\s*$\<close>\<close>

definition pat_only_ui :: pattern where
  "pat_only_ui = [T Bos, T (Star Space), T (Lit ''UIComponent''), T (Star Space), T Eos]"

text \<open>
  The body of the first loop. \<open>scanned\<close> is the text the matches were found in
  (\<^verbatim>\<open>match.group(0)\<close> is read from it); the text being edited is in the state.
\<close>

definition ui_import_step :: "string \<Rightarrow> string \<times> string list \<Rightarrow> rm \<Rightarrow> string \<times> string list" where
  "ui_import_step scanned st m =
     (let content = fst st; changes = snd st;
          import_path = group m 1;
          import_statement = slice scanned (m_start m) (m_end m)
      in if contains import_statement ''{'' \<and> contains import_statement ''}''
         then
           (let new_import =
                  (if contains import_statement ''as''
                   then (case search pat_ui_alias import_statement of
                           Some alias_match \<Rightarrow>
                             ''import '' @ group alias_match 1 @ '' from '' @ py_repr import_path
                         | None \<Rightarrow> ''import UIComponent from '' @ py_repr import_path)
                   else ''import UIComponent from '' @ py_repr import_path)
            in (replace content import_statement new_import,
                changes @ [''Fixed UIComponent import to use default import'']))
         else (content, changes))"

text \<open>The body of the second loop.\<close>

definition ui_path_step :: "string \<Rightarrow> string \<times> string list \<Rightarrow> rm \<Rightarrow> string \<times> string list" where
  "ui_path_step scanned st m =
     (let content = fst st; changes = snd st;
          imported_names = strip (group m 1);
          import_path = group m 2;
          import_statement = slice scanned (m_start m) (m_end m)
      in if match_start pat_only_ui imported_names \<noteq> None
         then (replace content import_statement (''import UIComponent from '' @ py_repr import_path),
               changes @ [''Fixed UIComponent path import to use default import''])
         else (content, changes))"

definition check_uicomponent_imports :: "string \<Rightarrow> string \<Rightarrow> string \<times> string list" where
  "check_uicomponent_imports content filename =
     (if path_name filename = ''UIComponent.js'' then (content, [])
      else
        (let st = foldl (ui_import_step content) (content, []) (finditer pat_ui_import content)
         in foldl (ui_path_step (fst st)) st (finditer pat_ui_path_import (fst st))))"

section \<open>Reconciliation: \<^verbatim>\<open>fix_import_export_mismatches\<close>\<close>

text \<open>\<^verbatim>\<open>export\s+default\s+class\s+\<close>name, \<^verbatim>\<open>export\s+default\s+function\s+\<close>name,
  \<^verbatim>\<open>export\s+class\s+\<close>name and \<^verbatim>\<open>export\s+function\s+\<close>name\<close>

definition pat_default_class_of :: "string \<Rightarrow> pattern" where
  "pat_default_class_of name =
     [T (Lit ''export''), T (Plus Space), T (Lit ''default''), T (Plus Space), T (Lit ''class''),
      T (Plus Space), T (Lit name)]"

definition pat_default_function_of :: "string \<Rightarrow> pattern" where
  "pat_default_function_of name =
     [T (Lit ''export''), T (Plus Space), T (Lit ''default''), T (Plus Space), T (Lit ''function''),
      T (Plus Space), T (Lit name)]"

definition pat_export_class_of :: "string \<Rightarrow> pattern" where
  "pat_export_class_of name =
     [T (Lit ''export''), T (Plus Space), T (Lit ''class''), T (Plus Space), T (Lit name)]"

definition pat_export_function_of :: "string \<Rightarrow> pattern" where
  "pat_export_function_of name =
     [T (Lit ''export''), T (Plus Space), T (Lit ''function''), T (Plus Space), T (Lit name)]"

text \<open>The body of the loop of the \<open>named\<close> branch.\<close>

definition convert_default :: "exports \<Rightarrow> string \<times> string list \<Rightarrow> decl \<Rightarrow> string \<times> string list" where
  "convert_default exports st d =
     (let content = fst st; changes = snd st; name = fst d
      in if name = ''_anonymous_'' then (content, changes)
         else
           (let has_named_export = name \<in> set (names_of (ex_destructured exports))
            in if \<not> has_named_export
               then
                 (let content = sub (pat_export_default_of name) [Txt (''export { '' @ name @ '' };'')] content;
                      changes = changes @ [''Converted default export to named export: '' @ name];
                      content = sub (pat_default_class_of name) [Txt (''export class '' @ name)] content;
                      content = sub (pat_default_function_of name) [Txt (''export function '' @ name)] content
                  in (content, changes))
               else (content, changes)))"

text \<open>\<^verbatim>\<open>main_export\<close>: the first name among the class, function and destructured
  exports that equals the base name (\<open>None\<close> when there is none).\<close>

definition find_main_export :: "exports \<Rightarrow> string \<Rightarrow> string option" where
  "find_main_export exports base_name =
     List.find (\<lambda>name. name = base_name)
       (names_of (ex_class exports @ ex_function exports @ ex_destructured exports))"

definition convert_to_default :: "exports \<Rightarrow> string \<Rightarrow> string \<Rightarrow> string \<times> string list" where
  "convert_to_default exports content main_export =
     (let has_default = length (ex_default exports) > 0
      in if \<not> has_default
         then
           (let class_match = search (pat_export_class_of main_export) content;
                function_match = search (pat_export_function_of main_export) content
            in if class_match \<noteq> None
               then (sub (pat_export_class_of main_export)
                       [Txt (''export default class '' @ main_export)] content,
                     [''Converted named class export to default: '' @ main_export])
               else if function_match \<noteq> None
               then (sub (pat_export_function_of main_export)
                       [Txt (''export default function '' @ main_export)] content,
                     [''Converted named function export to default: '' @ main_export])
               else if main_export \<in> set (names_of (ex_destructured exports))
               then
                 (let r = remove_named_export content main_export;
                      content = rstrip (fst r) @ [CHR 0x0A, CHR 0x0A] @ ''export default ''
                                @ main_export @ '';'' @ [CHR 0x0A]
                  in (content, snd r @ [''Added default export for '' @ main_export]))
               else (content, []))
         else (content, []))"

definition fix_import_export_mismatches :: "string \<Rightarrow> string \<Rightarrow> style_map \<Rightarrow> string \<times> string list" where
  "fix_import_export_mismatches content file_path export_style_map =
     (case map_of export_style_map file_path of
        None \<Rightarrow> (content, [])
      | Some expected_style \<Rightarrow>
          (let exports = find_all_exports content
           in case expected_style of
                NamedStyle \<Rightarrow> foldl (convert_default exports) (content, []) (ex_default exports)
              | DefaultStyle \<Rightarrow>
                  (let file_name = basename file_path;
                       base_name = splitext_root file_name
                   in case find_main_export exports base_name of
                        None \<Rightarrow> (content, [])
                      | Some main_export \<Rightarrow>
                          if main_export \<noteq> [] then convert_to_default exports content main_export
                          else (content, []))))"

section \<open>The run: \<^verbatim>\<open>main\<close>\<close>

text \<open>
  The command-line switches that change what is computed (\<^verbatim>\<open>--verbose\<close> only prints).
\<close>

record args =
  dry_run :: bool
  fix_duplicates_only :: bool
  skip_ui_component :: bool

text \<open>
  The two policy sets. \<^verbatim>\<open>main\<close> builds the dictionaries \<^verbatim>\<open>modern_import_fixes\<close> and
  \<^verbatim>\<open>keep_default_imports\<close> by iterating over them, so each is given as the list of its
  elements in the order of that iteration.
\<close>

record policy =
  keep_as_default_exports :: "string list"
  should_be_named_exports :: "string list"

definition modern_import_fixes :: "policy \<Rightarrow> (string \<times> string) list" where
  "modern_import_fixes pol =
     map (\<lambda>name. (name, ''import { '' @ name @ '' } from'')) (should_be_named_exports pol)"

definition keep_default_imports :: "policy \<Rightarrow> (string \<times> string) list" where
  "keep_default_imports pol =
     map (\<lambda>name. (name, ''import '' @ name @ '' from'')) (keep_as_default_exports pol)"

text \<open>
  The body of the per-file loop between reading and writing: steps 1 to 5 and the final
  clean-up of double semicolons. \<open>js_file\<close> is the path of the file;
  \<^verbatim>\<open>js_file.name\<close> is its last component.
\<close>

definition process_file :: "args \<Rightarrow> policy \<Rightarrow> style_map \<Rightarrow> string \<Rightarrow> string \<Rightarrow> string \<times> string list" where
  "process_file a pol export_style_map js_file content =
     (let st = remove_duplicate_exports content;
          st = (if \<not> fix_duplicates_only a
                then
                  (let e = modernize_exports (fst st) (path_name js_file)
                             (set (keep_as_default_exports pol)) (set (should_be_named_exports pol));
                       i = fix_imports (fst e) (modern_import_fixes pol) (keep_default_imports pol)
                             (path_name js_file)
                   in (fst i, snd st @ snd e @ snd i))
                else st);
          st = (if \<not> skip_ui_component a
                then (let u = check_uicomponent_imports (fst st) (path_name js_file)
                      in (fst u, snd st @ snd u))
                else st);
          m = fix_import_export_mismatches (fst st) js_file export_style_map;
          st = (fst m, snd st @ snd m)
      in if contains (fst st) '';;''
         then (sub pat_semicolons [Txt '';''] (fst st), snd st @ [''Double semicolons fixed''])
         else st)"

text \<open>\<^verbatim>\<open>export\s+default\s+\<close>\<close>

definition pat_any_default :: pattern where
  "pat_any_default = [T (Lit ''export''), T (Plus Space), T (Lit ''default''), T (Plus Space)]"

text \<open>
  The special handling of \<^verbatim>\<open>UIComponent.js\<close> at the start of \<^verbatim>\<open>main\<close>, before the
  analysis: the new text of the file, if the step changes it.
\<close>

definition ui_component_default :: "string \<Rightarrow> string option" where
  "ui_component_default content =
     (if search pat_any_default content \<noteq> None then None
      else if contains content ''class UIComponent'' \<and> \<not> contains content ''export class UIComponent''
      then Some (rstrip content @ [CHR 0x0A, CHR 0x0A] @ ''export default UIComponent;'' @ [CHR 0x0A])
      else if contains content ''export class UIComponent''
      then Some (replace content ''export class UIComponent'' ''export default class UIComponent'')
      else None)"

text \<open>
  Writing is the only effect on the store. \<open>writable\<close> tells for which paths
  \<^verbatim>\<open>open(..., 'w')\<close> succeeds; where it raises, the handler leaves the file as it was.
\<close>

definition write_file :: "(string \<Rightarrow> bool) \<Rightarrow> store \<Rightarrow> string \<Rightarrow> string \<Rightarrow> store" where
  "write_file writable fs path content = (if writable path then fs(path \<mapsto> content) else fs)"

definition ui_component_prestep :: "args \<Rightarrow> (string \<Rightarrow> bool) \<Rightarrow> store \<Rightarrow> string list \<Rightarrow> store" where
  "ui_component_prestep a writable fs js_files =
     (case List.find (\<lambda>js_file. path_name js_file = ''UIComponent.js'') js_files of
        None \<Rightarrow> fs
      | Some ui_component_file \<Rightarrow>
          if fix_duplicates_only a then fs
          else
            (case fs ui_component_file of
               None \<Rightarrow> fs
             | Some content \<Rightarrow>
                 (case ui_component_default content of
                    None \<Rightarrow> fs
                  | Some content' \<Rightarrow>
                      if \<not> dry_run a then write_file writable fs ui_component_file content' else fs)))"

text \<open>One round of the per-file loop: read, process, write back if the text changed.\<close>

definition process_step ::
  "args \<Rightarrow> policy \<Rightarrow> (string \<Rightarrow> bool) \<Rightarrow> style_map \<Rightarrow> store \<Rightarrow> string \<Rightarrow> store" where
  "process_step a pol writable export_style_map fs js_file =
     (case fs js_file of
        None \<Rightarrow> fs
      | Some original_content \<Rightarrow>
          (let content = fst (process_file a pol export_style_map js_file original_content)
           in if content \<noteq> original_content \<and> \<not> dry_run a
              then write_file writable fs js_file content
              else fs))"

definition process_files ::
  "args \<Rightarrow> policy \<Rightarrow> (string \<Rightarrow> bool) \<Rightarrow> style_map \<Rightarrow> string list \<Rightarrow> store \<Rightarrow> store" where
  "process_files a pol writable export_style_map js_files fs =
     foldl (process_step a pol writable export_style_map) fs js_files"

text \<open>
  \<^verbatim>\<open>main\<close> after file discovery: the UIComponent step, the analysis of the import
  relationships, then the per-file loop with the map that the analysis returned.
\<close>

definition main :: "args \<Rightarrow> policy \<Rightarrow> (string \<Rightarrow> bool) \<Rightarrow> string list \<Rightarrow> store \<Rightarrow> store" where
  "main a pol writable js_files fs =
     (let fs = ui_component_prestep a writable fs js_files;
          export_style_map = analyze_import_export_relationships fs js_files
      in process_files a pol writable export_style_map js_files fs)"

section \<open>Duplicate resolution on concrete files\<close>

text \<open>
  Claim C5 (Scenario B): for the input \<^verbatim>\<open>export {A, A};\<close> duplicate resolution is said to
  return \<^verbatim>\<open>export { A };\<close> with one change record. The resolver keeps entry 0 and
  removes entry 1 of the same statement by deleting the name \<open>A\<close> wherever it occurs in
  the brace list, so both entries go: the result is \<^verbatim>\<open>export {};\<close>, with the one change
  record "Removed A from export statement".
\<close>

theorem scenario_b_export_lost:
  "remove_duplicate_exports ''export {A, A};''
     = (''export {};'', [''Removed A from export statement''])"
  by code_simp

text \<open>
  Claim C6: anonymous default exports are said never to be merged, renamed or removed,
  also when a file holds more than one. The scanner files each
  \<^verbatim>\<open>export default function(\<close> twice, under the name \<open>function\<close> (first pattern) and
  under \<open>_anonymous_\<close>; the resolver treats both names as duplicated and removes, for
  each, the line at the earlier offset. With two anonymous default exports the second
  removal hits the line that was to be kept: the file comes out empty.
\<close>

theorem anonymous_default_exports_removed:
  "remove_duplicate_exports
     ''export default function() {}\<newline>export default function() {}\<newline>''
     = ([], [''Removed duplicate default export of function'',
             ''Removed duplicate default export of _anonymous_''])"
  by code_simp

text \<open>
  Claim C1: duplicate resolution is said to be idempotent. Offsets are taken from one scan
  of the original text and are not adjusted after an edit made for an earlier name. Below,
  removing the first \<open>A\<close> line moves the \<open>B\<close> lines up, the stale offset of the first
  \<open>B\<close> line then falls on the line \<open>x\<close>, which is kept, and the duplicate \<open>B\<close>
  survives the first pass. The second pass removes it and reports a change.
\<close>

theorem second_pass_changes_output:
  "remove_duplicate_exports
     ''export var A\<newline>export var A\<newline>export var B\<newline>x\<newline>export var B\<newline>''
     = (''export var A\<newline>export var B\<newline>x\<newline>export var B\<newline>'',
        [''Removed duplicate const export of A''])
   \<and> remove_duplicate_exports ''export var A\<newline>export var B\<newline>x\<newline>export var B\<newline>''
     = (''export var A\<newline>x\<newline>export var B\<newline>'',
        [''Removed duplicate const export of B''])"
  by code_simp

section \<open>Facts about the text primitives\<close>

lemma word_not_space: "is_word c \<Longrightarrow> \<not> is_space c"
  by (auto simp: is_word_def is_space_def Let_def)

lemma word_not_punct: "is_word c \<Longrightarrow> c \<noteq> CHR '','' \<and> c \<noteq> CHR ''/'' \<and> c \<noteq> CHR '' ''"
  by (auto simp: is_word_def)

lemma space_not_punct: "is_space c \<Longrightarrow> c \<noteq> CHR '','' \<and> c \<noteq> CHR ''/''"
  by (auto simp: is_space_def)

lemma rmatch_lit_mismatch:
  "rest = [] \<or> hd rest \<noteq> c \<Longrightarrow> rmatch (T (Lit (c # cs)) # p) pos prev rest caps = None"
  by (cases rest) (auto simp: rmatch.simps)

lemma scan_no_first_char:
  "c \<notin> set rest \<Longrightarrow> scan (T (Lit (c # cs)) # p) pos prev rest = []"
proof (induction rest arbitrary: pos prev)
  case Nil
  show ?case by (subst scan.simps) (simp add: rmatch_lit_mismatch)
next
  case (Cons x xs)
  then have "scan (T (Lit (c # cs)) # p) (Suc pos) (Some x) xs = []" by simp
  moreover from Cons.prems have "rmatch (T (Lit (c # cs)) # p) pos prev (x # xs) [] = None"
    by (intro rmatch_lit_mismatch) auto
  ultimately show ?case by (subst scan.simps) simp
qed

lemma sub_no_first_char:
  "c \<notin> set text \<Longrightarrow> sub (T (Lit (c # cs)) # p) repl text = text"
  by (simp add: sub_def finditer_def scan_no_first_char)

lemma startswith_append: "startswith (p @ ys) p"
  by (induction p) auto

lemma split_acc_no_sep:
  "c \<notin> set s \<Longrightarrow> split_acc (c # cs) acc s = [rev acc @ s]"
  by (induction s arbitrary: acc) auto

lemma split_acc_first_piece:
  "c \<notin> set xs \<Longrightarrow>
   split_acc (c # cs) acc (xs @ (c # cs) @ ys) = (rev acc @ xs) # split_acc (c # cs) [] ys"
proof (induction xs arbitrary: acc)
  case Nil
  have "startswith ((c # cs) @ ys) (c # cs)" by (rule startswith_append)
  then show ?case by simp
next
  case (Cons x xs)
  then show ?case by auto
qed

lemma strip_padded:
  assumes "list_all is_space a" "list_all is_space b" "m \<noteq> []"
    "\<not> is_space (hd m)" "\<not> is_space (last m)"
  shows "strip (a @ m @ b) = m"
proof -
  from assms(1) have "dropWhile is_space (a @ m @ b) = dropWhile is_space (m @ b)"
    by (intro dropWhile_append2) (simp add: list_all_iff)
  also from assms(3,4) have "\<dots> = m @ b" by (cases m) auto
  finally have l: "lstrip (a @ m @ b) = m @ b" by (simp add: lstrip_def)
  from assms(2) have "dropWhile is_space (rev b @ rev m) = dropWhile is_space (rev m)"
    by (intro dropWhile_append2) (simp add: list_all_iff)
  also from assms(3,5) have "\<dots> = rev m" by (cases m rule: rev_cases) auto
  finally show ?thesis by (simp add: strip_def rstrip_def l)
qed

lemma strip_word:
  assumes "x \<noteq> []" "list_all is_word x"
  shows "strip x = x"
proof -
  from assms have "is_word (hd x)" "is_word (last x)" by (simp_all add: list_all_iff)
  then have "\<not> is_space (hd x)" "\<not> is_space (last x)" by (simp_all add: word_not_space)
  with strip_padded [of "[]" "[]" x] assms(1) show ?thesis by simp
qed

lemma not_in_words: "list_all is_word x \<Longrightarrow> \<not> is_word c \<Longrightarrow> c \<notin> set x"
  by (auto simp: list_all_iff)

lemma not_in_spaces: "list_all is_space x \<Longrightarrow> \<not> is_space c \<Longrightarrow> c \<notin> set x"
  by (auto simp: list_all_iff)

section \<open>The import scanner and aliases\<close>

text \<open>
  Claim C9: for an aliased named import \<^verbatim>\<open>import { X as Y } from 'path'\<close> the scanner
  is said to record the local name \<open>Y\<close>. It records \<open>X\<close>: the entry is split at
  \<^verbatim>\<open>' as '\<close> and part 0 is taken.
\<close>

theorem aliased_import_local_name_not_recorded:
  \<open>im_named (find_all_imports ''import { X as Y } from './m';'') = [(''X'', ''./m'', 0, 28)]
    \<and> ''Y'' \<notin> set (map fst (im_named (find_all_imports ''import { X as Y } from './m';'')))\<close>
  by code_simp

text \<open>
  Claim C9, amended: for every entry \<open>X as Y\<close> of a brace list (identifiers \<open>X\<close> and
  \<open>Y\<close>, any white space around the entry), the name the scanner records is the
  pre-alias name \<open>X\<close>.
\<close>

theorem aliased_import_records_exported_name:
  assumes X: "X \<noteq> []" "list_all is_word X" and Y: "Y \<noteq> []" "list_all is_word Y"
    and pad: "list_all is_space a" "list_all is_space b"
  shows "map actual_name (import_names (a @ X @ '' as '' @ Y @ b)) = [X]"
proof -
  let ?entry = "X @ '' as '' @ Y"
  let ?list = "a @ ?entry @ b"
  have slash: "\<not> is_word CHR ''/''" "\<not> is_space CHR ''/''"
    and comma: "\<not> is_word CHR '',''" "\<not> is_space CHR '',''"
    and blank: "\<not> is_word CHR '' ''"
    by (simp_all add: is_word_def is_space_def)
  from X Y pad slash have no_slash: "CHR ''/'' \<notin> set ?list"
    by (simp add: not_in_words not_in_spaces)
  from X Y pad comma have no_comma: "CHR '','' \<notin> set ?list"
    by (simp add: not_in_words not_in_spaces)
  from no_slash have s1: "sub pat_line_comment [] ?list = ?list"
    unfolding pat_line_comment_def by (rule sub_no_first_char)
  from split_acc_no_sep [OF no_comma, of "[]" "[]"] have s2: "split ?list '','' = [?list]"
    by (simp add: Spec2Isabelle.split_def)
  have s3: "strip ?list = ?entry"
  proof (rule strip_padded [OF pad])
    show "?entry \<noteq> []" using X by simp
    show "\<not> is_space (hd ?entry)"
      using X by (cases X) (simp_all add: word_not_space)
    show "\<not> is_space (last ?entry)"
      using Y by (cases Y rule: rev_cases) (simp_all add: word_not_space)
  qed
  from X have ne: "?entry \<noteq> []" by simp
  have names: "import_names ?list = [?entry]"
    unfolding import_names_def s1 s2 using s3 ne by simp
  from X blank have "CHR '' '' \<notin> set X" by (simp add: not_in_words)
  from split_acc_first_piece [OF this, of "''as ''" "[]" Y]
  have "split ?entry '' as '' = X # split_acc '' as '' [] Y"
    by (simp add: Spec2Isabelle.split_def)
  with X have "actual_name ?entry = X" by (simp add: actual_name_def strip_word)
  with names show ?thesis by simp
qed

theorem aliased_import_records_exported_name_witness:
  "map actual_name (import_names ('' '' @ ''Foo'' @ '' as '' @ ''Bar'' @ '' '')) = [''Foo'']"
  by (rule aliased_import_records_exported_name) (simp_all add: is_word_def is_space_def)

section \<open>The style decision\<close>

text \<open>
  Claim C7: for every module path of the usage tally the inferred style is \<open>named\<close> when
  the named count exceeds the default count, otherwise \<open>default\<close> when the default count
  is positive, otherwise \<open>named\<close>; 3 named against 2 default gives \<open>named\<close>, and a
  single default import gives \<open>default\<close>.
\<close>

theorem canonical_style_decision:
  assumes "map_of (import_styles fs js_files) module_path = Some (named_count, default_count)"
  shows "map_of (analyze_import_export_relationships fs js_files) module_path
           = Some (if named_count > default_count then NamedStyle
                   else if default_count > 0 then DefaultStyle
                   else NamedStyle)
         \<and> decide_style (3, 2) = NamedStyle \<and> decide_style (0, 1) = DefaultStyle"
proof -
  have "map_of (analyze_import_export_relationships fs js_files) module_path
          = map_option decide_style (map_of (import_styles fs js_files) module_path)"
    by (simp add: analyze_import_export_relationships_def map_of_map)
  with assms show ?thesis by (simp add: decide_style_def)
qed

text \<open>
  A project of three files: \<^verbatim>\<open>./m\<close> is imported three times by name and twice as
  default, \<^verbatim>\<open>./q\<close> once as default.
\<close>

definition demo_project :: store where
  \<open>demo_project =
     [''src/a.js'' \<mapsto> ''import { X, Y } from './m'; import M from './m'; import Q from "./q";'',
      ''src/b.js'' \<mapsto> ''import { X } from "./m";'',
      ''src/c.js'' \<mapsto> ''import M from "./m.js";'']\<close>

theorem canonical_style_decision_witness:
  "map_of (import_styles demo_project [''src/a.js'', ''src/b.js'', ''src/c.js'']) ''src/m.js'' = Some (3, 2)
   \<and> map_of (analyze_import_export_relationships demo_project [''src/a.js'', ''src/b.js'', ''src/c.js''])
         ''src/m.js'' = Some NamedStyle
   \<and> map_of (analyze_import_export_relationships demo_project [''src/a.js'', ''src/b.js'', ''src/c.js''])
         ''src/q.js'' = Some DefaultStyle"
proof -
  have t: "map_of (import_styles demo_project [''src/a.js'', ''src/b.js'', ''src/c.js'']) ''src/m.js''
             = Some (3, 2)"
    by code_simp
  have q: "map_of (import_styles demo_project [''src/a.js'', ''src/b.js'', ''src/c.js'']) ''src/q.js''
             = Some (0, 1)"
    by code_simp
  from canonical_style_decision [OF t] canonical_style_decision [OF q] t show ?thesis by simp
qed

section \<open>Which occurrence the resolver keeps\<close>

lemma remove_others_after:
  "keep < i \<Longrightarrow> remove_others name keep i ps st = foldl (\<lambda>st p. remove_export name p st) st ps"
  by (induction ps arbitrary: i st) auto

lemma remove_others_skip:
  "i \<le> keep \<Longrightarrow>
   remove_others name keep i ps st
     = foldl (\<lambda>st p. remove_export name p st) st (take (keep - i) ps @ drop (Suc (keep - i)) ps)"
proof (induction ps arbitrary: i st)
  case Nil
  show ?case by simp
next
  case (Cons p ps)
  show ?case
  proof (cases "i = keep")
    case True
    then show ?thesis by (simp add: remove_others_after)
  next
    case False
    with Cons.prems have le: "Suc i \<le> keep" by simp
    then have "keep - i = Suc (keep - Suc i)" by simp
    with Cons.IH [OF le] False show ?thesis by simp
  qed
qed

lemma index_of_nth: "x \<in> set xs \<Longrightarrow> index_of xs x < length xs \<and> xs ! index_of xs x = x"
  by (induction xs) auto

lemma sort_positions_set: "set (sort_positions ps) = set ps"
  by (simp add: sort_positions_def)

lemma sort_positions_length: "length (sort_positions ps) = length ps"
  by (simp add: sort_positions_def)

lemma sorted_last_max: "sorted (map f ys) \<Longrightarrow> y \<in> set ys \<Longrightarrow> f y \<le> f (last ys)"
  by (induction ys) auto

lemma sort_positions_hd_max:
  assumes "p \<in> set ps"
  shows "fst (snd p) \<le> fst (snd (hd (sort_positions ps)))"
proof -
  let ?ys = "sort_key (\<lambda>x. fst (snd x)) (rev ps)"
  from assms have "p \<in> set ?ys" by simp
  then have "fst (snd p) \<le> fst (snd (last ?ys))"
    by (intro sorted_last_max sorted_sort_key)
  moreover from assms have "?ys \<noteq> []" by (metis empty_iff empty_set set_rev set_sort)
  ultimately show ?thesis by (simp add: sort_positions_def hd_rev)
qed

lemma keep_index_same_kind:
  assumes "set export_types \<subseteq> {k}"
  shows "keep_index export_types = 0"
  using assms by (cases export_types) (auto simp: keep_index_def)

lemma keep_index_const:
  assumes "Const \<in> set export_types" "Class \<notin> set export_types" "Function \<notin> set export_types"
  shows "keep_index export_types < length export_types \<and> export_types ! keep_index export_types = Const"
  using assms index_of_nth [of Const export_types] by (simp add: keep_index_def)

text \<open>
  Claim C3: among duplicates of one kind the resolver is said to retain the first
  occurrence by scan order. It sorts the occurrences by descending start offset and keeps
  entry 0 of the sorted list, the last occurrence in the file. Two \<open>const\<close> declarations:
  the second stays. Two destructured statements: the first is deleted, its line break
  is left behind.
\<close>

theorem same_kind_first_occurrence_removed:
  "remove_duplicate_exports ''export const A = 1;\<newline>export const A = 2;''
     = (''export const A = 2;'', [''Removed duplicate const export of A''])
   \<and> remove_duplicate_exports ''export {A};\<newline>export {B, A};''
     = (''\<newline>export {B, A};'', [''Removed duplicate export { A }''])"
  by code_simp

text \<open>
  Claim C3, amended: for every symbol whose occurrences are all of one kind, the resolver
  keeps the occurrence with the greatest start offset (the last by scan order) and hands
  every other occurrence to the removal step, from the highest offset down.
\<close>

theorem same_kind_keeps_last:
  assumes "positions \<noteq> []" and "\<forall>p \<in> set positions. fst p = kind"
  shows "resolve_name st (name, positions)
           = foldl (\<lambda>st p. remove_export name p st) st (tl (sort_positions positions))
         \<and> hd (sort_positions positions) \<in> set positions
         \<and> (\<forall>p \<in> set positions. fst (snd p) \<le> fst (snd (hd (sort_positions positions))))"
proof -
  let ?sorted = "sort_positions positions"
  from assms(1) have ne: "?sorted \<noteq> []"
    by (metis length_0_conv sort_positions_length)
  from assms(2) have "set (map fst ?sorted) \<subseteq> {kind}"
    by (auto simp: sort_positions_set)
  then have k: "keep_index (map fst ?sorted) = 0" by (rule keep_index_same_kind)
  from ne obtain p ps where s: "?sorted = p # ps" by (cases ?sorted) auto
  have "resolve_name st (name, positions) = remove_others name 0 0 ?sorted st"
    by (simp add: resolve_name_def Let_def k)
  also have "\<dots> = foldl (\<lambda>st p. remove_export name p st) st (tl ?sorted)"
    by (simp add: s remove_others_after)
  finally have 1: "resolve_name st (name, positions)
           = foldl (\<lambda>st p. remove_export name p st) st (tl ?sorted)" .
  from ne have 2: "hd ?sorted \<in> set positions"
    by (metis hd_in_set sort_positions_set)
  from 1 2 sort_positions_hd_max show ?thesis by blast
qed

theorem same_kind_keeps_last_witness:
  "resolve_name (''export const A = 1;\<newline>export const A = 2;'', [])
       (''A'', [(Const, 0, 14), (Const, 20, 34)])
     = (''export const A = 2;'', [''Removed duplicate const export of A''])
   \<and> hd (sort_positions [(Const, 0, 14), (Const, 20, 34)]) = (Const, 20, 34)"
proof -
  let ?ps = "[(Const, 0, 14), (Const, 20, 34)] :: position list"
  let ?st = "(''export const A = 1;\<newline>export const A = 2;'', []) :: string \<times> string list"
  have s: "sort_positions ?ps = [(Const, 20, 34), (Const, 0, 14)]" by code_simp
  have r: "remove_export ''A'' (Const, 0, 14) ?st
             = (''export const A = 2;'', [''Removed duplicate const export of A''])"
    by code_simp
  have "?ps \<noteq> []" "\<forall>p \<in> set ?ps. fst p = Const" by simp_all
  from same_kind_keeps_last [OF this, of ?st "''A''"]
  have "resolve_name ?st (''A'', ?ps) = foldl (\<lambda>st p. remove_export ''A'' p st) ?st (tl (sort_positions ?ps))"
    by blast
  with s r show ?thesis by simp
qed

text \<open>
  Claim C2: whenever a file declares \<open>X\<close> both as default and as const, the resolver is
  said to retain the const form and remove the default. A class (or function) declaration
  of the same symbol outranks both: here the const declaration is removed as well.
\<close>

theorem const_not_retained_beside_class:
  "remove_duplicate_exports
     ''export class A {}\<newline>export const A = 1;\<newline>export default A;''
     = (''export class A {}\<newline>'',
        [''Removed duplicate default export of A'', ''Removed duplicate const export of A''])"
  by code_simp

text \<open>
  Claim C2, amended: for every symbol with a const occurrence and no class or function
  occurrence, the occurrence the resolver keeps is of kind const, and every default
  occurrence is among those handed to the removal step.
\<close>

theorem const_outranks_default:
  assumes "Const \<in> fst ` set positions" 
    and "Class \<notin> fst ` set positions" and "Function \<notin> fst ` set positions"
  shows "let sorted = sort_positions positions; keep = keep_index (map fst sorted)
         in keep < length sorted \<and> fst (sorted ! keep) = Const
            \<and> resolve_name st (name, positions)
                = foldl (\<lambda>st p. remove_export name p st) st (take keep sorted @ drop (Suc keep) sorted)
            \<and> (\<forall>p \<in> set positions. fst p = Default \<longrightarrow> p \<in> set (take keep sorted @ drop (Suc keep) sorted))"
proof -
  let ?sorted = "sort_positions positions"
  let ?keep = "keep_index (map fst ?sorted)"
  from assms have "Const \<in> set (map fst ?sorted)" "Class \<notin> set (map fst ?sorted)"
    "Function \<notin> set (map fst ?sorted)"
    by (simp_all add: sort_positions_set)
  from keep_index_const [OF this]
  have k: "?keep < length ?sorted" and c: "fst (?sorted ! ?keep) = Const" by auto
  have r: "resolve_name st (name, positions)
          = foldl (\<lambda>st p. remove_export name p st) st (take ?keep ?sorted @ drop (Suc ?keep) ?sorted)"
    using remove_others_skip [of 0 ?keep name ?sorted st] by (simp add: resolve_name_def Let_def)
  have d: "p \<in> set (take ?keep ?sorted @ drop (Suc ?keep) ?sorted)"
    if "p \<in> set positions" "fst p = Default" for p
  proof -
    from that(1) have "p \<in> set ?sorted" by (simp add: sort_positions_set)
    then have "p \<in> set (take ?keep ?sorted @ ?sorted ! ?keep # drop (Suc ?keep) ?sorted)"
      using k by (simp add: id_take_nth_drop [symmetric])
    with that(2) c show ?thesis by auto
  qed
  from k c r d show ?thesis by (simp add: Let_def)
qed

theorem const_outranks_default_witness:
  "resolve_name (''export default A;\<newline>export const A = 1;'', [])
       (''A'', [(Default, 0, 17), (Const, 18, 32)])
     = (''export const A = 1;'', [''Removed duplicate default export of A''])
   \<and> sort_positions [(Default, 0, 17), (Const, 18, 32)]
         ! keep_index (map fst (sort_positions [(Default, 0, 17), (Const, 18, 32)])) = (Const, 18, 32)"
proof -
  let ?ps = "[(Default, 0, 17), (Const, 18, 32)] :: position list"
  let ?st = "(''export default A;\<newline>export const A = 1;'', []) :: string \<times> string list"
  have s: "sort_positions ?ps = [(Const, 18, 32), (Default, 0, 17)]" by code_simp
  have k: "keep_index (map fst [(Const, 18, 32), (Default, 0, 17)]) = 0" by code_simp
  have r: "remove_export ''A'' (Default, 0, 17) ?st
             = (''export const A = 1;'', [''Removed duplicate default export of A''])"
    by code_simp
  have "Const \<in> fst ` set ?ps" "Class \<notin> fst ` set ?ps" "Function \<notin> fst ` set ?ps"
    by simp_all
  from const_outranks_default [OF this, of ?st "''A''"]
  have "resolve_name ?st (''A'', ?ps)
          = foldl (\<lambda>st p. remove_export ''A'' p st) ?st
              (take (keep_index (map fst (sort_positions ?ps))) (sort_positions ?ps)
               @ drop (Suc (keep_index (map fst (sort_positions ?ps)))) (sort_positions ?ps))"
    by (simp add: Let_def)
  with s k r show ?thesis by simp
qed

section \<open>Scenario A through the per-file pipeline\<close>

lemma scenario_a_no_duplicates:
  "remove_duplicate_exports ''export default Foo;\<newline>class Foo {}''
     = (''export default Foo;\<newline>class Foo {}'', [])"
  by code_simp

lemma scenario_a_exports:
  "find_all_exports ''export default Foo;\<newline>class Foo {}''
     = \<lparr>ex_default = [(''Foo'', 0, 19)], ex_named = [], ex_class = [], ex_function = [],
        ex_const = [], ex_destructured = []\<rparr>"
  by code_simp

lemma scenario_a_sub:
  "sub (pat_export_default_of ''Foo'') [Txt ''export { Foo };''] ''export default Foo;\<newline>class Foo {}''
     = ''export { Foo };\<newline>class Foo {}''"
  by code_simp

lemma scenario_a_modernize:
  assumes "''Foo'' \<in> should_be_named" "path_stem filename \<notin> keep_as_default"
  shows "modernize_exports ''export default Foo;\<newline>class Foo {}'' filename keep_as_default should_be_named
           = (''export { Foo };\<newline>class Foo {}'', [''Default to Named export: Foo''])"
  using assms
  by (simp add: modernize_exports_def scenario_a_exports default_to_named_def names_of_def
      scenario_a_sub)

lemma scenario_a_no_import:
  "search (T (Lit ''import'') # p) ''export { Foo };\<newline>class Foo {}'' = None"
  by (simp add: search_def rmatch.simps)

lemma scenario_a_modernize_import:
  "foldl modernize_import (''export { Foo };\<newline>class Foo {}'', []) entries
     = (''export { Foo };\<newline>class Foo {}'', [])"
  by (induction entries) (simp_all add: modernize_import_def pat_wrong_default_def scenario_a_no_import)

lemma scenario_a_base_class_import:
  "foldl base_class_import (''export { Foo };\<newline>class Foo {}'', []) entries
     = (''export { Foo };\<newline>class Foo {}'', [])"
  by (induction entries) (simp_all add: base_class_import_def pat_wrong_named_def scenario_a_no_import)

lemma scenario_a_imported_modules:
  "imported_modules_of ''export { Foo };\<newline>class Foo {}'' = []"
  by code_simp

lemma scenario_a_fix_imports:
  "fix_imports ''export { Foo };\<newline>class Foo {}'' modern_imports default_imports filename
     = (''export { Foo };\<newline>class Foo {}'', [])"
  by (simp add: fix_imports_def scenario_a_modernize_import scenario_a_base_class_import
      scenario_a_imported_modules)

lemma scenario_a_ui_matches:
  "finditer pat_ui_import ''export { Foo };\<newline>class Foo {}'' = []"
  "finditer pat_ui_path_import ''export { Foo };\<newline>class Foo {}'' = []"
  by code_simp+

lemma scenario_a_ui:
  "check_uicomponent_imports ''export { Foo };\<newline>class Foo {}'' filename
     = (''export { Foo };\<newline>class Foo {}'', [])"
  by (simp add: check_uicomponent_imports_def scenario_a_ui_matches)

lemma scenario_a_exports_after:
  "find_all_exports ''export { Foo };\<newline>class Foo {}''
     = \<lparr>ex_default = [], ex_named = [], ex_class = [], ex_function = [],
        ex_const = [], ex_destructured = [(''Foo'', 0, 15)]\<rparr>"
  by code_simp

lemma scenario_a_mismatches:
  assumes "map_of export_style_map file_path = Some DefaultStyle
             \<longrightarrow> splitext_root (basename file_path) \<noteq> ''Foo''"
  shows "fix_import_export_mismatches ''export { Foo };\<newline>class Foo {}'' file_path export_style_map
           = (''export { Foo };\<newline>class Foo {}'', [])"
  using assms
  by (auto simp: fix_import_export_mismatches_def scenario_a_exports_after find_main_export_def
      names_of_def Let_def split: option.splits style.splits)

lemma scenario_a_semicolons: "\<not> contains ''export { Foo };\<newline>class Foo {}'' '';;''"
  by code_simp

lemma scenario_a_contains: "contains ''export { Foo };\<newline>class Foo {}'' ''export { Foo };''"
  by code_simp

text \<open>
  Claim C4 (Scenario A): for the input \<^verbatim>\<open>export default Foo;\<close> followed by
  \<^verbatim>\<open>class Foo {}\<close>, with \<open>Foo\<close> forced named, the output is said to contain
  \<^verbatim>\<open>export { Foo };\<close> and no default export. Two guards of the code stand against
  that: a file whose stem is in the kept-default set is not converted (the classifier
  returns early), and a file \<^verbatim>\<open>Foo.js\<close> that the tally classifies as \<open>default\<close> is
  converted back by the reconciliation step.
\<close>

theorem scenario_a_kept_default_file:
  "process_file \<lparr>dry_run = False, fix_duplicates_only = False, skip_ui_component = False\<rparr>
     \<lparr>keep_as_default_exports = [''UIComponent'', ''World'', ''main''],
      should_be_named_exports = [''Foo'']\<rparr>
     [] ''src/main.js'' ''export default Foo;\<newline>class Foo {}''
   = (''export default Foo;\<newline>class Foo {}'', [])
   \<and> process_file \<lparr>dry_run = False, fix_duplicates_only = False, skip_ui_component = False\<rparr>
     \<lparr>keep_as_default_exports = [''UIComponent'', ''World'', ''main''],
      should_be_named_exports = [''Foo'']\<rparr>
     [(''src/Foo.js'', DefaultStyle)] ''src/Foo.js'' ''export default Foo;\<newline>class Foo {}''
   = (''\<newline>class Foo {}\<newline>\<newline>export default Foo;\<newline>'',
      [''Default to Named export: Foo'', ''Removed named export for Foo'',
       ''Added default export for Foo''])"
  by code_simp

text \<open>
  Claim C4, amended: with \<open>Foo\<close> in the forced-named set, in the full mode, for a
  file whose stem is not in the kept-default set and that is not both named \<open>Foo\<close> and
  classified \<open>default\<close> by the tally, the pipeline returns
  \<^verbatim>\<open>export { Foo };\<close> followed by \<^verbatim>\<open>class Foo {}\<close>, which contains the named export
  and in which the scanner finds no default export.
\<close>

theorem scenario_a:
  assumes "''Foo'' \<in> set (should_be_named_exports pol)"
    and "path_stem (path_name js_file) \<notin> set (keep_as_default_exports pol)"
    and "\<not> fix_duplicates_only a"
    and "map_of export_style_map js_file = Some DefaultStyle
           \<longrightarrow> splitext_root (basename js_file) \<noteq> ''Foo''"
  shows "process_file a pol export_style_map js_file ''export default Foo;\<newline>class Foo {}''
           = (''export { Foo };\<newline>class Foo {}'', [''Default to Named export: Foo''])
         \<and> contains ''export { Foo };\<newline>class Foo {}'' ''export { Foo };''
         \<and> ex_default (find_all_exports ''export { Foo };\<newline>class Foo {}'') = []"
  using assms
  by (simp add: process_file_def Let_def scenario_a_no_duplicates scenario_a_modernize
      scenario_a_fix_imports scenario_a_ui scenario_a_mismatches scenario_a_semicolons
      scenario_a_contains scenario_a_exports_after)

theorem scenario_a_witness:
  "process_file \<lparr>dry_run = False, fix_duplicates_only = False, skip_ui_component = False\<rparr>
     \<lparr>keep_as_default_exports = [''UIComponent'', ''World'', ''main''],
      should_be_named_exports = [''Player'', ''Foo'']\<rparr>
     [(''src/Foo.js'', NamedStyle)] ''src/Foo.js'' ''export default Foo;\<newline>class Foo {}''
   = (''export { Foo };\<newline>class Foo {}'', [''Default to Named export: Foo''])"
proof -
  have "path_stem (path_name ''src/Foo.js'') = ''Foo''" by code_simp
  then show ?thesis
    using scenario_a [of "\<lparr>keep_as_default_exports = [''UIComponent'', ''World'', ''main''],
      should_be_named_exports = [''Player'', ''Foo'']\<rparr>" "''src/Foo.js''"
      "\<lparr>dry_run = False, fix_duplicates_only = False, skip_ui_component = False\<rparr>"
      "[(''src/Foo.js'', NamedStyle)]"]
    by simp
qed

section \<open>The tally and the order of the run\<close>

text \<open>
  The switches of a full run, the policy sets written in \<^verbatim>\<open>main\<close>, and the project of
  Scenario D: two files import \<^verbatim>\<open>./m\<close> by name, one as default, and \<^verbatim>\<open>m.js\<close> has a
  default export.
\<close>

definition scenario_d :: store where
  \<open>scenario_d =
     [''src/a.js'' \<mapsto> ''import { X } from './m';'',
      ''src/b.js'' \<mapsto> ''import { X } from './m';'',
      ''src/c.js'' \<mapsto> ''import M from './m';'',
      ''src/m.js'' \<mapsto> ''export default M;'']\<close>

definition full_run :: args where
  "full_run = \<lparr>dry_run = False, fix_duplicates_only = False, skip_ui_component = False\<rparr>"

definition source_policy :: policy where
  "source_policy =
     \<lparr>keep_as_default_exports = [''UIComponent'', ''World'', ''main''],
      should_be_named_exports =
        [''CONFIG'', ''UIConfig'', ''AssetManager'', ''TargetSystem'', ''WeatherSystem'',
         ''EnvironmentSystem'', ''MenuSystem'', ''ScreenManager'', ''MissionBriefing'',
         ''RoundSummary'', ''ScreenEffects'', ''HitIndicator'', ''Feature'', ''Sky'', ''EnhancedSky'',
         ''Enemy'', ''Player'', ''Level'', ''Weapon'', ''Bullet'', ''Blaster'', ''Shotgun'',
         ''AssaultRifle'', ''HealthPack'', ''Item'', ''WeaponItem'', ''Projectile'', ''CombatSystem'',
         ''HUDSystem'', ''NotificationSystem'', ''ProgressionSystem'', ''MovementSystem'',
         ''DOMFactory'', ''EventManager'', ''InputHandler'']\<rparr>"

lemma write_file_other: "g \<noteq> f \<Longrightarrow> write_file writable fs f content g = fs g"
  by (simp add: write_file_def)

lemma process_step_other:
  "g \<noteq> js_file \<Longrightarrow> process_step a pol writable m fs js_file g = fs g"
  by (simp add: process_step_def Let_def write_file_other split: option.splits)

lemma process_step_own:
  "fs' js_file = fs js_file \<Longrightarrow>
   process_step a pol writable m fs' js_file js_file = process_step a pol writable m fs js_file js_file"
  by (simp add: process_step_def Let_def write_file_def split: option.splits)

lemma process_files_untouched:
  "g \<notin> set js_files \<Longrightarrow> process_files a pol writable m js_files fs g = fs g"
  unfolding process_files_def
  by (induction js_files arbitrary: fs) (simp_all add: process_step_other)

lemma process_files_each:
  assumes "distinct js_files" "js_file \<in> set js_files"
  shows "process_files a pol writable m js_files fs js_file
           = process_step a pol writable m fs js_file js_file"
  using assms
proof (induction js_files arbitrary: fs)
  case Nil
  then show ?case by simp
next
  case (Cons g rest)
  let ?fs' = "process_step a pol writable m fs g"
  have unfold: "process_files a pol writable m (g # rest) fs = process_files a pol writable m rest ?fs'"
    by (simp add: process_files_def)
  show ?case
  proof (cases "js_file = g")
    case True
    with Cons.prems have "js_file \<notin> set rest" by simp
    from process_files_untouched [OF this] unfold True show ?thesis by simp
  next
    case False
    with Cons.prems have "distinct rest" "js_file \<in> set rest" by simp_all
    from Cons.IH [OF this]
    have "process_files a pol writable m rest ?fs' js_file
            = process_step a pol writable m ?fs' js_file js_file" .
    also from False have "?fs' js_file = fs js_file" by (simp add: process_step_other)
    then have "process_step a pol writable m ?fs' js_file js_file
                 = process_step a pol writable m fs js_file js_file"
      by (rule process_step_own)
    finally show ?thesis using unfold by simp
  qed
qed

text \<open>
  Claim C8: the tally is said to be built from every file's original imports, before any
  file is rewritten in the run. \<^verbatim>\<open>main\<close> first runs its special step for
  \<^verbatim>\<open>UIComponent.js\<close>, which can write that file, and only then analyses the imports:
  a file is rewritten before the tally is taken, and since the step replaces the text
  \<^verbatim>\<open>export class UIComponent\<close> wherever it stands, even the tally can differ from
  that of the original files.
\<close>

theorem tally_taken_after_ui_component_rewrite:
  \<open>ui_component_prestep full_run (\<lambda>path. True) [''src/UIComponent.js'' \<mapsto> ''class UIComponent {}'']
      [''src/UIComponent.js''] ''src/UIComponent.js''
     = Some ''class UIComponent {}\<newline>\<newline>export default UIComponent;\<newline>''
   \<and> analyze_import_export_relationships
       (ui_component_prestep full_run (\<lambda>path. True)
          [''src/UIComponent.js'' \<mapsto> ''import x from "./export class UIComponent";'']
          [''src/UIComponent.js''])
       [''src/UIComponent.js'']
     = [(''src/export default class UIComponent.js'', DefaultStyle)]
   \<and> analyze_import_export_relationships
       [''src/UIComponent.js'' \<mapsto> ''import x from "./export class UIComponent";'']
       [''src/UIComponent.js'']
     = [(''src/export class UIComponent.js'', DefaultStyle)]\<close>
  by code_simp

text \<open>
  Claim C8, amended: the tally is built once, from the files as they are after the
  \<^verbatim>\<open>UIComponent.js\<close> step and before the per-file loop; every file of the (duplicate-free)
  file list then ends as one processing step would leave it, run on the store as it was
  before the loop and with the map of that store. No edit of the loop reaches the tally or
  another file's outcome.
\<close>

theorem tally_frozen_before_file_loop:
  assumes "distinct js_files" "js_file \<in> set js_files"
  shows "main a pol writable js_files fs js_file
           = process_step a pol writable
               (analyze_import_export_relationships (ui_component_prestep a writable fs js_files) js_files)
               (ui_component_prestep a writable fs js_files) js_file js_file"
  using process_files_each [OF assms] by (simp add: main_def Let_def)

theorem tally_frozen_before_file_loop_witness:
  "main full_run source_policy (\<lambda>path. True) [''src/a.js'', ''src/b.js'', ''src/c.js'', ''src/m.js'']
     scenario_d ''src/m.js'' = Some ''export { M };''"
proof -
  let ?files = "[''src/a.js'', ''src/b.js'', ''src/c.js'', ''src/m.js'']"
  have "distinct ?files" "''src/m.js'' \<in> set ?files" by simp_all
  from tally_frozen_before_file_loop [OF this, of full_run source_policy "\<lambda>path. True" scenario_d]
  have "main full_run source_policy (\<lambda>path. True) ?files scenario_d ''src/m.js''
          = process_step full_run source_policy (\<lambda>path. True)
              (analyze_import_export_relationships
                 (ui_component_prestep full_run (\<lambda>path. True) scenario_d ?files) ?files)
              (ui_component_prestep full_run (\<lambda>path. True) scenario_d ?files) ''src/m.js'' ''src/m.js''" .
  also have "\<dots> = Some ''export { M };''" by code_simp
  finally show ?thesis .
qed

end
